theory Spec2Isabelle
  imports Main "HOL-Library.AList" "HOL-Library.Log_Nat" "HOL-Library.Sublist" "HOL-Library.Word"
begin

section \<open>Python values used by the trading bot\<close>

text \<open>
  The bot is Python. Text is modelled as \<^typ>\<open>string\<close>, one \<^typ>\<open>char\<close> per
  character; the model covers ASCII text (a character beyond ASCII would be several
  bytes of UTF-8 here and is passed through unchanged by \<open>upper\<close>, \<open>strip\<close> and
  \<open>repr\<close>). A Python \<open>float\<close> is an IEEE binary64 value: a finite one is kept by
  its exact rational value, with the two zeros, the two infinities and NaN apart.
\<close>

datatype pyfloat = Finite rat | NegZero | PosInf | NegInf | NaN

datatype pyval =
    PNone
  | PBool bool
  | PInt int
  | PFloat pyfloat
  | PStr string
  | PList "pyval list"
  | PDict "(string \<times> pyval) list"

type_synonym pydict = "(string \<times> pyval) list"

subsection \<open>Strings: \<open>str.strip\<close>, \<open>str.upper\<close>\<close>

definition py_isspace :: "char \<Rightarrow> bool" where
  "py_isspace c = (let n = (of_char c :: nat) in (9 \<le> n \<and> n \<le> 13) \<or> (28 \<le> n \<and> n \<le> 32))"

definition c_isspace :: "char \<Rightarrow> bool" where
  "c_isspace c = (let n = (of_char c :: nat) in (9 \<le> n \<and> n \<le> 13) \<or> n = 32)"

definition strip :: "string \<Rightarrow> string" where
  "strip s = rev (dropWhile py_isspace (rev (dropWhile py_isspace s)))"

definition upper_char :: "char \<Rightarrow> char" where
  "upper_char c = (let n = (of_char c :: nat) in if 97 \<le> n \<and> n \<le> 122 then char_of (n - 32) else c)"

definition upper :: "string \<Rightarrow> string" where
  "upper s = map upper_char s"

definition lower_char :: "char \<Rightarrow> char" where
  "lower_char c = (let n = (of_char c :: nat) in if 65 \<le> n \<and> n \<le> 90 then char_of (n + 32) else c)"

definition is_digit :: "char \<Rightarrow> bool" where
  "is_digit c = (let n = (of_char c :: nat) in 48 \<le> n \<and> n \<le> 57)"

definition digit_val :: "char \<Rightarrow> int" where
  "digit_val c = of_char c - 48"

definition digits_val :: "string \<Rightarrow> int" where
  "digits_val ds = foldl (\<lambda>a c. 10 * a + digit_val c) 0 ds"

subsection \<open>Rounding to binary64\<close>

text \<open>
  \<open>round_half_even\<close> rounds a rational to the nearest integer, ties to the even one.
  \<open>ilog2 q\<close> is the exponent \<open>e\<close> with \<open>2^e \<le> q < 2^(e+1)\<close> for a positive \<open>q\<close>.
  \<open>round_mag\<close> rounds a positive magnitude to the nearest binary64 magnitude
  (53 significant bits, exponents from -1022, subnormals below); \<open>None\<close> is overflow:
  the rounded magnitude would reach \<open>2^1024\<close>.
\<close>

definition pow2 :: "int \<Rightarrow> rat" where
  "pow2 k = (if 0 \<le> k then 2 ^ nat k else 1 / 2 ^ nat (- k))"

definition pow10 :: "int \<Rightarrow> rat" where
  "pow10 k = (if 0 \<le> k then 10 ^ nat k else 1 / 10 ^ nat (- k))"

definition round_half_even :: "rat \<Rightarrow> int" where
  "round_half_even q =
     (let f = \<lfloor>q\<rfloor>; d = q - of_int f
      in if d < 1 / 2 then f else if 1 / 2 < d then f + 1 else if even f then f else f + 1)"

definition ilog2 :: "rat \<Rightarrow> int" where
  "ilog2 q = (let (a, b) = quotient_of q; k = bitlen a - bitlen b
              in if pow2 k \<le> q then k else k - 1)"

definition round_mag :: "rat \<Rightarrow> rat option" where
  "round_mag q =
     (let e = max (ilog2 q) (- 1022);
          n = round_half_even (q / pow2 (e - 52))
      in if 1024 \<le> e \<or> (e = 1023 \<and> n = 2 ^ 53) then None
         else Some (of_int n * pow2 (e - 52)))"

definition to_double :: "bool \<Rightarrow> rat \<Rightarrow> pyfloat" where
  "to_double neg q =
     (if q = 0 then (if neg then NegZero else Finite 0)
      else case round_mag q of
             None \<Rightarrow> (if neg then NegInf else PosInf)
           | Some r \<Rightarrow> if r = 0 then (if neg then NegZero else Finite 0)
                       else Finite (if neg then - r else r))"

subsection \<open>\<open>float(str)\<close>\<close>

text \<open>
  The grammar of \<open>float()\<close> on a string: surrounding whitespace (for ASCII text the
  six characters of C's \<open>isspace\<close>, fewer than \<open>str.strip\<close> removes), an optional sign,
  then \<open>inf\<close>, \<open>infinity\<close> or \<open>nan\<close> in any case, or a decimal number (digits with an
  optional point and an optional exponent), where single underscores may stand between
  digits. \<open>None\<close> is the \<open>ValueError\<close> of \<open>float()\<close>.
\<close>

fun strip_underscores :: "char \<Rightarrow> string \<Rightarrow> string option" where
  "strip_underscores prev [] = (if prev = CHR ''_'' then None else Some [])"
| "strip_underscores prev (c # cs) =
     (if c = CHR ''_'' then (if is_digit prev then strip_underscores c cs else None)
      else if prev = CHR ''_'' \<and> \<not> is_digit c then None
      else map_option ((#) c) (strip_underscores c cs))"

definition split_sign :: "string \<Rightarrow> bool \<times> string" where
  "split_sign s = (case s of
       c # cs \<Rightarrow> if c = CHR ''-'' then (True, cs) else if c = CHR ''+'' then (False, cs) else (False, s)
     | [] \<Rightarrow> (False, s))"

definition parse_exponent :: "string \<Rightarrow> int option" where
  "parse_exponent s = (case s of
       [] \<Rightarrow> Some 0
     | c # cs \<Rightarrow>
         if c = CHR ''e'' \<or> c = CHR ''E'' then
           (let (neg, ds) = split_sign cs
            in if ds \<noteq> [] \<and> list_all is_digit ds
               then Some (if neg then - digits_val ds else digits_val ds)
               else None)
         else None)"

definition parse_decimal :: "string \<Rightarrow> rat option" where
  "parse_decimal s =
     (let ip = takeWhile is_digit s;
          r1 = dropWhile is_digit s;
          has_point = (r1 \<noteq> [] \<and> hd r1 = CHR ''.'');
          r2 = (if has_point then tl r1 else r1);
          fp = (if has_point then takeWhile is_digit r2 else []);
          r3 = (if has_point then dropWhile is_digit r2 else r2)
      in if ip = [] \<and> fp = [] then None
         else case parse_exponent r3 of
                None \<Rightarrow> None
              | Some ex \<Rightarrow> Some (of_int (digits_val (ip @ fp)) * pow10 (ex - int (length fp))))"

definition float_of_str :: "string \<Rightarrow> pyfloat option" where
  "float_of_str s =
     (case strip_underscores (CHR 0x00) s of
        None \<Rightarrow> None
      | Some t \<Rightarrow>
          (let (neg, body) = split_sign (rev (dropWhile c_isspace (rev (dropWhile c_isspace t))));
               low = map lower_char body
           in if low = ''inf'' \<or> low = ''infinity'' then Some (if neg then NegInf else PosInf)
              else if low = ''nan'' then Some NaN
              else map_option (to_double neg) (parse_decimal body)))"

text \<open>Comparisons of a float with an integer constant; every comparison with NaN is false.\<close>

definition float_le_int :: "pyfloat \<Rightarrow> int \<Rightarrow> bool" where
  "float_le_int x n = (case x of
       Finite q \<Rightarrow> q \<le> of_int n | NegZero \<Rightarrow> 0 \<le> n | PosInf \<Rightarrow> False | NegInf \<Rightarrow> True | NaN \<Rightarrow> False)"

definition float_gt_int :: "pyfloat \<Rightarrow> int \<Rightarrow> bool" where
  "float_gt_int x n = (case x of
       Finite q \<Rightarrow> of_int n < q | NegZero \<Rightarrow> n < 0 | PosInf \<Rightarrow> True | NegInf \<Rightarrow> False | NaN \<Rightarrow> False)"

subsection \<open>\<open>str\<close> and \<open>repr\<close>\<close>

definition digit_char :: "int \<Rightarrow> char" where
  "digit_char d = char_of (48 + d)"

function dec_digits :: "int \<Rightarrow> string" where
  "dec_digits n = (if n < 10 then [digit_char n] else dec_digits (n div 10) @ [digit_char (n mod 10)])"
  by pat_completeness auto
termination
  by (relation "measure nat") auto

definition int_str :: "int \<Rightarrow> string" where
  "int_str n = (if n < 0 then CHR ''-'' # dec_digits (- n) else dec_digits n)"

text \<open>
  \<open>repr\<close> of a float is the shortest decimal string that \<open>float()\<close> reads back as the
  same value (the nearest to the value among the shortest). \<open>decpt m\<close> places the decimal
  point: \<open>10^(decpt m - 1) \<le> m < 10^(decpt m)\<close> for a positive \<open>m\<close>. \<open>digits_at m d k\<close>
  looks for \<open>k\<close> significant digits that read back as \<open>m\<close>.
\<close>

definition decpt :: "rat \<Rightarrow> int" where
  "decpt m = (if 1 \<le> m then int (length (dec_digits \<lfloor>m\<rfloor>))
              else 1 - int (length (dec_digits (\<lceil>1 / m\<rceil> - 1))))"

definition digits_at :: "rat \<Rightarrow> int \<Rightarrow> int \<Rightarrow> int option" where
  "digits_at m d k =
     (let s = k - d;
          v = m * pow10 s;
          lo = \<lfloor>v\<rfloor>;
          hi = lo + 1;
          ok_lo = (round_mag (of_int lo * pow10 (- s)) = Some m);
          ok_hi = (round_mag (of_int hi * pow10 (- s)) = Some m)
      in if ok_lo \<and> ok_hi
         then Some (if v - of_int lo < of_int hi - v then lo
                    else if of_int hi - v < v - of_int lo then hi
                    else if even lo then lo else hi)
         else if ok_lo then Some lo
         else if ok_hi then Some hi
         else None)"

fun shortest_digits :: "rat \<Rightarrow> int \<Rightarrow> int list \<Rightarrow> int \<times> int" where
  "shortest_digits m d [] = (\<lfloor>m * pow10 (17 - d)\<rfloor>, 17)"
| "shortest_digits m d (k # ks) =
     (case digits_at m d k of Some c \<Rightarrow> (c, k) | None \<Rightarrow> shortest_digits m d ks)"

definition strip_zeros :: "string \<Rightarrow> string" where
  "strip_zeros ds = rev (dropWhile (\<lambda>c. c = CHR ''0'') (rev ds))"

definition format_digits :: "string \<Rightarrow> int \<Rightarrow> string" where
  "format_digits ds dp =
     (let n = int (length ds) in
      if dp \<le> - 4 \<or> 16 < dp then
        (let ex = dp - 1;
             mant = (if 1 < n then hd ds # CHR ''.'' # tl ds else ds);
             exs = dec_digits \<bar>ex\<bar>
         in mant @ ''e'' @ (if ex < 0 then ''-'' else ''+'')
              @ (if length exs < 2 then CHR ''0'' # exs else exs))
      else if dp \<le> 0 then ''0.'' @ replicate (nat (- dp)) (CHR ''0'') @ ds
      else if n \<le> dp then ds @ replicate (nat (dp - n)) (CHR ''0'') @ ''.0''
      else take (nat dp) ds @ ''.'' @ drop (nat dp) ds)"

definition repr_mag :: "rat \<Rightarrow> string" where
  "repr_mag m =
     (let d = decpt m;
          (c, k) = shortest_digits m d [1, 2, 3, 4, 5, 6, 7, 8, 9, 10, 11, 12, 13, 14, 15, 16, 17];
          ds = dec_digits c
      in format_digits (strip_zeros ds) (int (length ds) - k + d))"

definition float_repr :: "pyfloat \<Rightarrow> string" where
  "float_repr x = (case x of
       Finite q \<Rightarrow> if q = 0 then ''0.0'' else if q < 0 then CHR ''-'' # repr_mag (- q) else repr_mag q
     | NegZero \<Rightarrow> ''-0.0''
     | PosInf \<Rightarrow> ''inf''
     | NegInf \<Rightarrow> ''-inf''
     | NaN \<Rightarrow> ''nan'')"

text \<open>\<open>repr\<close> of a string: quoted, with the quote, the backslash and control characters escaped.\<close>

definition hex_lower :: "nat \<Rightarrow> char" where
  "hex_lower d = (if d < 10 then char_of (48 + d) else char_of (87 + d))"

definition hex_upper :: "nat \<Rightarrow> char" where
  "hex_upper d = (if d < 10 then char_of (48 + d) else char_of (55 + d))"

definition repr_char :: "char \<Rightarrow> char \<Rightarrow> string" where
  "repr_char q c =
     (let n = (of_char c :: nat) in
      if c = q \<or> c = CHR 0x5C then [CHR 0x5C, c]
      else if c = CHR 0x09 then [CHR 0x5C, CHR ''t'']
      else if c = CHR 0x0A then [CHR 0x5C, CHR ''n'']
      else if c = CHR 0x0D then [CHR 0x5C, CHR ''r'']
      else if n < 32 \<or> n = 127 then [CHR 0x5C, CHR ''x'', hex_lower (n div 16), hex_lower (n mod 16)]
      else [c])"

definition repr_str :: "string \<Rightarrow> string" where
  "repr_str s =
     (let q = (if CHR 0x27 \<in> set s \<and> CHR 0x22 \<notin> set s then CHR 0x22 else CHR 0x27)
      in q # concat (map (repr_char q) s) @ [q])"

fun join :: "string \<Rightarrow> string list \<Rightarrow> string" where
  "join sep [] = []"
| "join sep [x] = x"
| "join sep (x # y # ys) = x @ sep @ join sep (y # ys)"

fun py_repr :: "pyval \<Rightarrow> string" where
  "py_repr PNone = ''None''"
| "py_repr (PBool b) = (if b then ''True'' else ''False'')"
| "py_repr (PInt n) = int_str n"
| "py_repr (PFloat x) = float_repr x"
| "py_repr (PStr s) = repr_str s"
| "py_repr (PList xs) = ''['' @ join '', '' (map py_repr xs) @ '']''"
| "py_repr (PDict kvs) =
     ''{'' @ join '', '' (map (\<lambda>kv. repr_str (fst kv) @ '': '' @ py_repr (snd kv)) kvs) @ ''}''"

definition py_str :: "pyval \<Rightarrow> string" where
  "py_str v = (case v of PStr s \<Rightarrow> s | _ \<Rightarrow> py_repr v)"

section \<open>HTTP messages and exceptions\<close>

text \<open>
  A response of the \<open>requests\<close> library, as far as the bot reads it: the status code, the
  body text, and what \<open>response.json()\<close> gives (\<open>None\<close> when the body is not JSON and
  the call raises). A request is what the bot hands to the session: the method, the URL,
  the query parameters (\<open>params=\<close>) or the form body (\<open>data=\<close>), and the timeout.
  A dict is an association list in insertion order with distinct keys.
\<close>

record http_response =
  status_code :: int
  resp_text :: string
  resp_json :: "pyval option"

datatype http_method = GET | POST | DELETE

record http_request =
  req_method :: http_method
  req_url :: string
  req_headers :: "(string \<times> string) list"
  req_params :: pydict
  req_data :: pydict
  req_timeout :: nat

text \<open>
  The exceptions the bot raises or lets through. \<open>BadParameter message param_hint\<close> is
  \<open>click.BadParameter\<close> (the spec's ValidationError); \<open>HTTPError message response\<close> is
  \<open>requests.HTTPError\<close> (the spec's RemoteAPIError); \<open>ValueError\<close> and
  \<open>EnvironmentError\<close> carry their message; \<open>JSONDecodeError\<close> is the \<open>ValueError\<close>
  of \<open>response.json()\<close>; \<open>RequestException\<close> is a failure of the transport (the spec's
  TransportError); the exceptions raised by built-in operations carry no message here.
\<close>

datatype exc =
    BadParameter string string
  | ValueError string
  | JSONDecodeError
  | EnvironmentError string
  | HTTPError string http_response
  | RequestException
  | TypeError
  | AttributeError
  | OverflowError
  | OSError

text \<open>
  The classes an \<open>except\<close> clause names take their subclasses with them: in Python 3
  \<open>EnvironmentError\<close> is \<open>OSError\<close> itself and the exceptions of \<open>requests\<close> derive
  from it; \<open>JSONDecodeError\<close> derives from \<open>ValueError\<close>.
\<close>

definition is_os_error :: "exc \<Rightarrow> bool" where
  "is_os_error e = (case e of
       OSError \<Rightarrow> True | EnvironmentError m \<Rightarrow> True | HTTPError m r \<Rightarrow> True
     | RequestException \<Rightarrow> True | _ \<Rightarrow> False)"

definition is_value_error :: "exc \<Rightarrow> bool" where
  "is_value_error e = (case e of ValueError m \<Rightarrow> True | JSONDecodeError \<Rightarrow> True | _ \<Rightarrow> False)"

section \<open>Validators (\<open>bot/validators.py\<close>)\<close>

definition quoted :: "string \<Rightarrow> string" where
  "quoted s = [CHR 0x27] @ s @ [CHR 0x27]"

definition validate_quantity :: "string \<Rightarrow> exc + pyfloat" where
  "validate_quantity quantity =
     (case float_of_str quantity of
        None \<Rightarrow> Inl (BadParameter
          (quoted quantity @ '' is not a valid number. Quantity must be a positive decimal (e.g. 0.01).'')
          ''--quantity'')
      | Some qty \<Rightarrow>
          if float_le_int qty 0 then
            Inl (BadParameter (''Quantity must be greater than 0. Got: '' @ float_repr qty @ ''.'')
              ''--quantity'')
          else if float_gt_int qty 1000000 then
            Inl (BadParameter
              (''Quantity exceeds the maximum allowed value of 1,000,000. Got: '' @ float_repr qty @ ''.'')
              ''--quantity'')
          else Inr qty)"

definition validate_price :: "string option \<Rightarrow> string \<Rightarrow> exc + pyfloat option" where
  "validate_price price order_type =
     (if order_type = ''MARKET'' \<or> order_type = ''STOP_MARKET'' then
        (case price of
           Some p \<Rightarrow> Inl (BadParameter
             (''Price must not be specified for '' @ order_type @ '' orders. Remove the --price flag.'')
             ''--price'')
         | None \<Rightarrow> Inr None)
      else case price of
        None \<Rightarrow> Inl (BadParameter
          ''Price is required for LIMIT orders. Please provide --price <value>.'' ''--price'')
      | Some p \<Rightarrow>
          (case float_of_str p of
             None \<Rightarrow> Inl (BadParameter
               (quoted p @ '' is not a valid price. Must be a positive decimal number.'') ''--price'')
           | Some parsed_price \<Rightarrow>
               if float_le_int parsed_price 0 then
                 Inl (BadParameter
                   (''Price must be greater than 0. Got: '' @ float_repr parsed_price @ ''.'') ''--price'')
               else Inr (Some parsed_price)))"

section \<open>Stop price (\<open>cli.py\<close>)\<close>

definition validate_stop_price :: "string option \<Rightarrow> string \<Rightarrow> exc + pyfloat option" where
  "validate_stop_price stop_price order_type =
     (if \<not> (order_type = ''STOP_MARKET'' \<or> order_type = ''STOP_LIMIT'') then Inr None
      else case stop_price of
        None \<Rightarrow> Inl (BadParameter (''--stop-price is required for '' @ order_type @ '' orders.'')
                   ''--stop-price'')
      | Some sp \<Rightarrow>
          (case float_of_str sp of
             None \<Rightarrow> Inl (BadParameter
               (quoted sp @ '' is not a valid stop price. Must be a positive number.'') ''--stop-price'')
           | Some parsed \<Rightarrow>
               if float_le_int parsed 0 then
                 Inl (BadParameter
                   (quoted sp @ '' is not a valid stop price. Must be a positive number.'')
                   ''--stop-price'')
               else Inr (Some parsed)))"

subsection \<open>The stop price in the web API (\<open>app.py\<close>, \<open>api_place_order\<close>)\<close>

text \<open>
  \<open>float(x)\<close> on any value, and Python's truth value, as \<open>x or None\<close> needs it. The web
  handler either answers at once (\<open>Respond message status\<close>, from \<open>_error\<close>), lets an
  exception escape (\<open>Raise\<close>), or goes on with a value.
\<close>

definition int_to_float :: "int \<Rightarrow> exc + pyfloat" where
  "int_to_float n =
     (if n = 0 then Inr (Finite 0)
      else case round_mag (of_int \<bar>n\<bar>) of
             None \<Rightarrow> Inl OverflowError
           | Some r \<Rightarrow> Inr (Finite (if n < 0 then - r else r)))"

definition py_float :: "pyval \<Rightarrow> exc + pyfloat" where
  "py_float v = (case v of
       PStr s \<Rightarrow> (case float_of_str s of
                    None \<Rightarrow> Inl (ValueError (''could not convert string to float: '' @ repr_str s))
                  | Some x \<Rightarrow> Inr x)
     | PFloat x \<Rightarrow> Inr x
     | PInt n \<Rightarrow> int_to_float n
     | PBool b \<Rightarrow> Inr (Finite (if b then 1 else 0))
     | PNone \<Rightarrow> Inl TypeError
     | PList xs \<Rightarrow> Inl TypeError
     | PDict kvs \<Rightarrow> Inl TypeError)"

definition py_truthy :: "pyval \<Rightarrow> bool" where
  "py_truthy v = (case v of
       PNone \<Rightarrow> False
     | PBool b \<Rightarrow> b
     | PInt n \<Rightarrow> n \<noteq> 0
     | PFloat x \<Rightarrow> x \<noteq> Finite 0 \<and> x \<noteq> NegZero
     | PStr s \<Rightarrow> s \<noteq> []
     | PList xs \<Rightarrow> xs \<noteq> []
     | PDict kvs \<Rightarrow> kvs \<noteq> [])"

datatype 'a api_step = Respond string nat | Raise exc | Continue 'a

definition api_stop_price :: "pydict \<Rightarrow> string \<Rightarrow> pyfloat option api_step" where
  "api_stop_price data order_type =
     (let raw_stop = (case map_of data ''stop_price'' of
                        None \<Rightarrow> PNone
                      | Some v \<Rightarrow> if py_truthy v then v else PNone)
      in if order_type = ''STOP_MARKET'' \<or> order_type = ''STOP_LIMIT'' then
           (if raw_stop = PNone then
              Respond (''stop_price is required for '' @ order_type @ '' orders.'') 400
            else case py_float raw_stop of
              Inl (ValueError m) \<Rightarrow> Respond m 400
            | Inl e \<Rightarrow> Raise e
            | Inr parsed_stop \<Rightarrow>
                if float_le_int parsed_stop 0 then Respond ''stop_price must be a positive number.'' 400
                else Continue (Some parsed_stop))
         else Continue None)"

section \<open>HMAC-SHA256 and \<open>urlencode\<close>\<close>

text \<open>
  \<open>hmac.new(key, msg, hashlib.sha256).hexdigest()\<close>: SHA-256 (FIPS 180-4) over the
  bytes of the text, and HMAC (RFC 2104) with a block of 64 bytes.
\<close>

unbundle bit_operations_syntax

definition K256 :: "32 word list" where
  "K256 =
    [0x428A2F98, 0x71374491, 0xB5C0FBCF, 0xE9B5DBA5, 0x3956C25B, 0x59F111F1,
     0x923F82A4, 0xAB1C5ED5, 0xD807AA98, 0x12835B01, 0x243185BE, 0x550C7DC3,
     0x72BE5D74, 0x80DEB1FE, 0x9BDC06A7, 0xC19BF174, 0xE49B69C1, 0xEFBE4786,
     0x0FC19DC6, 0x240CA1CC, 0x2DE92C6F, 0x4A7484AA, 0x5CB0A9DC, 0x76F988DA,
     0x983E5152, 0xA831C66D, 0xB00327C8, 0xBF597FC7, 0xC6E00BF3, 0xD5A79147,
     0x06CA6351, 0x14292967, 0x27B70A85, 0x2E1B2138, 0x4D2C6DFC, 0x53380D13,
     0x650A7354, 0x766A0ABB, 0x81C2C92E, 0x92722C85, 0xA2BFE8A1, 0xA81A664B,
     0xC24B8B70, 0xC76C51A3, 0xD192E819, 0xD6990624, 0xF40E3585, 0x106AA070,
     0x19A4C116, 0x1E376C08, 0x2748774C, 0x34B0BCB5, 0x391C0CB3, 0x4ED8AA4A,
     0x5B9CCA4F, 0x682E6FF3, 0x748F82EE, 0x78A5636F, 0x84C87814, 0x8CC70208,
     0x90BEFFFA, 0xA4506CEB, 0xBEF9A3F7, 0xC67178F2]"

definition H256 :: "32 word list" where
  "H256 =
    [0x6A09E667, 0xBB67AE85, 0x3C6EF372, 0xA54FF53A, 0x510E527F, 0x9B05688C,
     0x1F83D9AB, 0x5BE0CD19]"

definition rotr :: "nat \<Rightarrow> 32 word \<Rightarrow> 32 word" where
  "rotr n x = drop_bit n x OR push_bit (32 - n) x"

definition ssig0 :: "32 word \<Rightarrow> 32 word" where
  "ssig0 x = rotr 7 x XOR rotr 18 x XOR drop_bit 3 x"

definition ssig1 :: "32 word \<Rightarrow> 32 word" where
  "ssig1 x = rotr 17 x XOR rotr 19 x XOR drop_bit 10 x"

definition bsig0 :: "32 word \<Rightarrow> 32 word" where
  "bsig0 x = rotr 2 x XOR rotr 13 x XOR rotr 22 x"

definition bsig1 :: "32 word \<Rightarrow> 32 word" where
  "bsig1 x = rotr 6 x XOR rotr 11 x XOR rotr 25 x"

fun schedule :: "nat \<Rightarrow> 32 word list \<Rightarrow> 32 word list" where
  "schedule 0 ws = ws"
| "schedule (Suc n) ws =
     (let l = length ws
      in schedule n (ws @ [ssig1 (ws ! (l - 2)) + ws ! (l - 7) + ssig0 (ws ! (l - 15)) + ws ! (l - 16)]))"

fun sha_round :: "32 word list \<Rightarrow> 32 word \<times> 32 word \<Rightarrow> 32 word list" where
  "sha_round [a, b, c, d, e, f, g, h] (k, w) =
     (let t1 = h + bsig1 e + ((e AND f) XOR (NOT e AND g)) + k + w;
          t2 = bsig0 a + ((a AND b) XOR (a AND c) XOR (b AND c))
      in [t1 + t2, a, b, c, d + t1, e, f, g])"
| "sha_round st kw = st"

definition compress :: "32 word list \<Rightarrow> 32 word list \<Rightarrow> 32 word list" where
  "compress st block = map2 (+) st (foldl sha_round st (zip K256 (schedule 48 block)))"

fun be_words :: "8 word list \<Rightarrow> 32 word list" where
  "be_words (a # b # c # d # rest) =
     (push_bit 24 (ucast a) OR push_bit 16 (ucast b) OR push_bit 8 (ucast c) OR ucast d) # be_words rest"
| "be_words bs = []"

fun sha_blocks :: "32 word list \<Rightarrow> 32 word list \<Rightarrow> nat \<Rightarrow> 32 word list" where
  "sha_blocks st ws 0 = st"
| "sha_blocks st ws (Suc n) = sha_blocks (compress st (take 16 ws)) (drop 16 ws) n"

definition sha_pad :: "8 word list \<Rightarrow> 8 word list" where
  "sha_pad msg =
     (let l = length msg
      in msg @ [0x80] @ replicate ((119 - l mod 64) mod 64) 0
           @ map (\<lambda>i. ucast (drop_bit (8 * i) (word_of_nat (8 * l) :: 64 word))) [7, 6, 5, 4, 3, 2, 1, 0])"

definition word_bytes :: "32 word \<Rightarrow> 8 word list" where
  "word_bytes x = [ucast (drop_bit 24 x), ucast (drop_bit 16 x), ucast (drop_bit 8 x), ucast x]"

definition sha256 :: "8 word list \<Rightarrow> 8 word list" where
  "sha256 msg =
     (let p = sha_pad msg
      in concat (map word_bytes (sha_blocks H256 (be_words p) (length p div 64))))"

definition hmac_sha256 :: "8 word list \<Rightarrow> 8 word list \<Rightarrow> 8 word list" where
  "hmac_sha256 key msg =
     (let k0 = (if 64 < length key then sha256 key else key);
          k = k0 @ replicate (64 - length k0) 0
      in sha256 (map (\<lambda>b. b XOR 0x5c) k @ sha256 (map (\<lambda>b. b XOR 0x36) k @ msg)))"

definition encode :: "string \<Rightarrow> 8 word list" where
  "encode s = map (\<lambda>c. of_char c) s"

definition hexdigest :: "8 word list \<Rightarrow> string" where
  "hexdigest bs = concat (map (\<lambda>b. [hex_lower (unat b div 16), hex_lower (unat b mod 16)]) bs)"

definition hmac_sha256_hex :: "string \<Rightarrow> string \<Rightarrow> string" where
  "hmac_sha256_hex key msg = hexdigest (hmac_sha256 (encode key) (encode msg))"

text \<open>
  \<open>urllib.parse.urlencode\<close> of a dict: \<open>key=value\<close> pairs in the dict's order, joined
  by \<open>&\<close>, each side passed through \<open>str\<close> and \<open>quote_plus\<close>.
\<close>

definition quote_plus_char :: "char \<Rightarrow> string" where
  "quote_plus_char c =
     (let n = (of_char c :: nat) in
      if (48 \<le> n \<and> n \<le> 57) \<or> (65 \<le> n \<and> n \<le> 90) \<or> (97 \<le> n \<and> n \<le> 122)
         \<or> c = CHR ''_'' \<or> c = CHR ''.'' \<or> c = CHR ''-'' \<or> c = CHR ''~'' then [c]
      else if c = CHR '' '' then ''+''
      else [CHR ''%'', hex_upper (n div 16), hex_upper (n mod 16)])"

definition quote_plus :: "string \<Rightarrow> string" where
  "quote_plus s = concat (map quote_plus_char s)"

definition urlencode :: "pydict \<Rightarrow> string" where
  "urlencode query = join ''&'' (map (\<lambda>kv. quote_plus (fst kv) @ ''='' @ quote_plus (py_str (snd kv))) query)"

section \<open>The client (\<open>bot/client.py\<close>)\<close>

text \<open>
  The client keeps the credentials and the base URL. What lies outside the program is the
  \<open>world\<close>: the dict objects on the heap, by address (a caller and the client that share
  a dict share its address), the clock (\<open>now_ms\<close> is what \<open>int(time.time() * 1000)\<close>
  gives), the transport (\<open>network\<close> answers a request with a response or fails), and
  the requests handed to the session so far (\<open>sent\<close>). Logging is left out.
\<close>

record client =
  api_key :: string
  api_secret :: string
  base_url :: string

record world =
  heap :: "nat \<Rightarrow> pydict"
  fresh :: nat
  now_ms :: int
  network :: "http_request \<Rightarrow> exc + http_response"
  sent :: "http_request list"

definition init_client :: "(string \<Rightarrow> string option) \<Rightarrow> exc + client" where
  "init_client getenv =
     (let key = (case getenv ''BINANCE_API_KEY'' of None \<Rightarrow> [] | Some v \<Rightarrow> v);
          secret = (case getenv ''BINANCE_API_SECRET'' of None \<Rightarrow> [] | Some v \<Rightarrow> v)
      in if key = [] then
           Inl (EnvironmentError (''BINANCE_API_KEY is not set. ''
             @ ''Please copy .env.example to .env and fill in your testnet API key.''))
         else if secret = [] then
           Inl (EnvironmentError (''BINANCE_API_SECRET is not set. ''
             @ ''Please copy .env.example to .env and fill in your testnet API secret.''))
         else Inr \<lparr>api_key = key, api_secret = secret,
                    base_url = ''https://testnet.binancefuture.com''\<rparr>)"

definition alloc :: "pydict \<Rightarrow> world \<Rightarrow> nat \<times> world" where
  "alloc d w = (fresh w, w\<lparr>heap := (heap w)(fresh w := d), fresh := Suc (fresh w)\<rparr>)"

definition mask_params :: "pydict \<Rightarrow> pydict" where
  "mask_params params =
     (if ''signature'' \<in> fst ` set params then AList.update ''signature'' (PStr ''***'') params
      else params)"

text \<open>
  \<open>_sign\<close> writes into the dict at the address it is given and returns that address.
  \<open>signed_dict\<close> is the new state of the dict.
\<close>

definition signed_dict :: "client \<Rightarrow> int \<Rightarrow> pydict \<Rightarrow> pydict" where
  "signed_dict c now params =
     (let p1 = AList.update ''timestamp'' (PInt now) params;
          query_string = urlencode p1;
          signature = hmac_sha256_hex (api_secret c) query_string
      in AList.update ''signature'' (PStr signature) p1)"

definition sign :: "client \<Rightarrow> nat \<Rightarrow> world \<Rightarrow> nat \<times> world" where
  "sign c params w = (params, w\<lparr>heap := (heap w)(params := signed_dict c (now_ms w) (heap w params))\<rparr>)"

definition em_dash :: string where
  "em_dash = [CHR 0xE2, CHR 0x80, CHR 0x94]"

definition handle_response :: "http_response \<Rightarrow> exc + pyval" where
  "handle_response response =
     (if status_code response \<noteq> 200 then
        (case resp_json response of
           None \<Rightarrow>
             Inl (HTTPError (''Binance API Error '' @ int_str (status_code response) @ '': ''
                    @ ''N/A'' @ '' '' @ em_dash @ '' '' @ resp_text response) response)
         | Some (PDict error_body) \<Rightarrow>
             (let error_code = (case map_of error_body ''code'' of None \<Rightarrow> PStr ''N/A'' | Some v \<Rightarrow> v);
                  error_msg = (case map_of error_body ''msg'' of
                                 None \<Rightarrow> PStr (resp_text response) | Some v \<Rightarrow> v)
              in Inl (HTTPError (''Binance API Error '' @ int_str (status_code response) @ '': ''
                    @ py_str error_code @ '' '' @ em_dash @ '' '' @ py_str error_msg) response))
         | Some other \<Rightarrow> Inl AttributeError)
      else case resp_json response of
             None \<Rightarrow> Inl JSONDecodeError
           | Some body \<Rightarrow> Inr body)"

definition session_headers :: "client \<Rightarrow> (string \<times> string) list" where
  "session_headers c =
     [(''X-MBX-APIKEY'', api_key c), (''Content-Type'', ''application/x-www-form-urlencoded'')]"

definition send :: "http_request \<Rightarrow> world \<Rightarrow> (exc + pyval) \<times> world" where
  "send req w =
     (let w' = w\<lparr>sent := sent w @ [req]\<rparr>
      in case network w req of
           Inl e \<Rightarrow> (Inl e, w')
         | Inr response \<Rightarrow> (handle_response response, w'))"

text \<open>
  \<open>get\<close>, \<open>post\<close> and \<open>delete\<close> share their first lines (\<open>prepare\<close>: a missing dict
  becomes a new empty one, a signed call signs the dict in place) and their last
  (\<open>send\<close>: the request goes to the session and the response to \<open>_handle_response\<close>).
\<close>

definition prepare :: "client \<Rightarrow> nat option \<Rightarrow> bool \<Rightarrow> world \<Rightarrow> nat \<times> world" where
  "prepare c params signed' w =
     (let (p, w1) = (case params of None \<Rightarrow> alloc [] w | Some a \<Rightarrow> (a, w))
      in if signed' then sign c p w1 else (p, w1))"

definition get :: "client \<Rightarrow> string \<Rightarrow> nat option \<Rightarrow> bool \<Rightarrow> world \<Rightarrow> (exc + pyval) \<times> world" where
  "get c endpoint params signed' w =
     (let (p, w1) = prepare c params signed' w
      in send \<lparr>req_method = GET, req_url = base_url c @ endpoint, req_headers = session_headers c,
                req_params = heap w1 p, req_data = [], req_timeout = 10\<rparr> w1)"

definition post :: "client \<Rightarrow> string \<Rightarrow> nat option \<Rightarrow> bool \<Rightarrow> world \<Rightarrow> (exc + pyval) \<times> world" where
  "post c endpoint params signed' w =
     (let (p, w1) = prepare c params signed' w
      in send \<lparr>req_method = POST, req_url = base_url c @ endpoint, req_headers = session_headers c,
                req_params = [], req_data = heap w1 p, req_timeout = 10\<rparr> w1)"

definition delete :: "client \<Rightarrow> string \<Rightarrow> nat option \<Rightarrow> bool \<Rightarrow> world \<Rightarrow> (exc + pyval) \<times> world" where
  "delete c endpoint params signed' w =
     (let (p, w1) = prepare c params signed' w
      in send \<lparr>req_method = DELETE, req_url = base_url c @ endpoint, req_headers = session_headers c,
                req_params = heap w1 p, req_data = [], req_timeout = 10\<rparr> w1)"

subsection \<open>\<open>get_exchange_info\<close> and \<open>get_account_balance\<close>\<close>

text \<open>
  \<open>x.get(key, default)\<close> exists on a dict only; a \<open>for\<close> loop runs over a list, over
  the keys of a dict or over the characters of a string.
\<close>

definition py_get :: "pyval \<Rightarrow> string \<Rightarrow> pyval \<Rightarrow> exc + pyval" where
  "py_get x key dflt = (case x of
       PDict kvs \<Rightarrow> Inr (case map_of kvs key of None \<Rightarrow> dflt | Some v \<Rightarrow> v)
     | _ \<Rightarrow> Inl AttributeError)"

definition py_iter :: "pyval \<Rightarrow> exc + pyval list" where
  "py_iter x = (case x of
       PList xs \<Rightarrow> Inr xs
     | PDict kvs \<Rightarrow> Inr (map (\<lambda>kv. PStr (fst kv)) kvs)
     | PStr s \<Rightarrow> Inr (map (\<lambda>c. PStr [c]) s)
     | _ \<Rightarrow> Inl TypeError)"

definition symbol_not_found :: "string \<Rightarrow> exc" where
  "symbol_not_found symbol =
     ValueError (''Symbol '' @ quoted symbol @ '' was not found on Binance Futures Testnet. ''
       @ ''Check that the symbol is correct (e.g. BTCUSDT).'')"

fun find_symbol :: "pyval list \<Rightarrow> string \<Rightarrow> exc + pyval" where
  "find_symbol [] symbol = Inl (symbol_not_found symbol)"
| "find_symbol (sym_info # rest) symbol =
     (case py_get sym_info ''symbol'' PNone of
        Inl e \<Rightarrow> Inl e
      | Inr s \<Rightarrow> if s = PStr (upper symbol) then Inr sym_info else find_symbol rest symbol)"

definition exchange_info_of :: "pyval \<Rightarrow> string \<Rightarrow> exc + pyval" where
  "exchange_info_of data symbol =
     (case py_get data ''symbols'' (PList []) of
        Inl e \<Rightarrow> Inl e
      | Inr syms \<Rightarrow> (case py_iter syms of Inl e \<Rightarrow> Inl e | Inr xs \<Rightarrow> find_symbol xs symbol))"

definition get_exchange_info :: "client \<Rightarrow> string \<Rightarrow> world \<Rightarrow> (exc + pyval) \<times> world" where
  "get_exchange_info c symbol w =
     (case get c ''/fapi/v1/exchangeInfo'' None False w of
        (Inl e, w') \<Rightarrow> (Inl e, w')
      | (Inr data, w') \<Rightarrow> (exchange_info_of data symbol, w'))"

fun positive_balances :: "pyval list \<Rightarrow> exc + pyval list" where
  "positive_balances [] = Inr []"
| "positive_balances (asset # rest) =
     (case py_get asset ''walletBalance'' (PInt 0) of
        Inl e \<Rightarrow> Inl e
      | Inr b \<Rightarrow>
          (case py_float b of
             Inl e \<Rightarrow> Inl e
           | Inr x \<Rightarrow>
               (case positive_balances rest of
                  Inl e \<Rightarrow> Inl e
                | Inr ys \<Rightarrow> Inr (if float_gt_int x 0 then asset # ys else ys))))"

definition account_balance_of :: "pyval \<Rightarrow> exc + pyval list" where
  "account_balance_of data =
     (case py_get data ''assets'' (PList []) of
        Inl e \<Rightarrow> Inl e
      | Inr assets \<Rightarrow> (case py_iter assets of Inl e \<Rightarrow> Inl e | Inr xs \<Rightarrow> positive_balances xs))"

definition get_account_balance :: "client \<Rightarrow> world \<Rightarrow> (exc + pyval list) \<times> world" where
  "get_account_balance c w =
     (case get c ''/fapi/v2/account'' None True w of
        (Inl e, w') \<Rightarrow> (Inl e, w')
      | (Inr data, w') \<Rightarrow> (account_balance_of data, w'))"

section \<open>Orders (\<open>bot/orders.py\<close>)\<close>

text \<open>
  \<open>order_params\<close> is the first half of \<open>place_order\<close>: the dict it builds, or the
  \<open>ValueError\<close> it raises, before the client is called. The signature names floats for
  the quantity and the prices, and the validators supply floats; Python does not check,
  so they are any values here, \<open>PNone\<close> being \<open>None\<close>, and \<open>str\<close> makes their text.
\<close>

definition order_params ::
  "string \<Rightarrow> string \<Rightarrow> string \<Rightarrow> pyval \<Rightarrow> pyval \<Rightarrow> string \<Rightarrow> pyval \<Rightarrow> exc + pydict" where
  "order_params symbol side order_type quantity price time_in_force stop_price =
     (let params = [(''symbol'', PStr (upper symbol)), (''side'', PStr (upper side)),
                    (''type'', PStr (upper order_type)), (''quantity'', PStr (py_str quantity))]
      in if upper order_type = ''LIMIT'' then
           (if price = PNone then Inl (ValueError ''Price is required for LIMIT orders.'')
            else Inr (AList.update ''timeInForce'' (PStr time_in_force)
                       (AList.update ''price'' (PStr (py_str price)) params)))
         else if upper order_type = ''STOP_MARKET'' then
           (if stop_price = PNone then
              Inl (ValueError ''stop_price is required for STOP_MARKET orders.'')
            else Inr (AList.update ''stopPrice'' (PStr (py_str stop_price)) params))
         else if upper order_type = ''STOP_LIMIT'' then
           (if price = PNone then
              Inl (ValueError ''Price (limit price) is required for STOP_LIMIT orders.'')
            else if stop_price = PNone then
              Inl (ValueError ''stop_price (trigger price) is required for STOP_LIMIT orders.'')
            else Inr (AList.update ''timeInForce'' (PStr time_in_force)
                       (AList.update ''stopPrice'' (PStr (py_str stop_price))
                         (AList.update ''price'' (PStr (py_str price)) params))))
         else Inr params)"

definition place_order ::
  "client \<Rightarrow> string \<Rightarrow> string \<Rightarrow> string \<Rightarrow> pyval \<Rightarrow> pyval \<Rightarrow> string \<Rightarrow> pyval
     \<Rightarrow> world \<Rightarrow> (exc + pyval) \<times> world" where
  "place_order c symbol side order_type quantity price time_in_force stop_price w =
     (case order_params symbol side order_type quantity price time_in_force stop_price of
        Inl e \<Rightarrow> (Inl e, w)
      | Inr params \<Rightarrow>
          (let (p, w1) = alloc params w
           in post c ''/fapi/v1/order'' (Some p) True w1))"

definition get_order :: "client \<Rightarrow> string \<Rightarrow> int \<Rightarrow> world \<Rightarrow> (exc + pyval) \<times> world" where
  "get_order c symbol order_id w =
     (let (p, w1) = alloc [(''symbol'', PStr (upper symbol)), (''orderId'', PInt order_id)] w
      in get c ''/fapi/v1/order'' (Some p) True w1)"

definition cancel_order :: "client \<Rightarrow> string \<Rightarrow> int \<Rightarrow> world \<Rightarrow> (exc + pyval) \<times> world" where
  "cancel_order c symbol order_id w =
     (let (p, w1) = alloc [(''symbol'', PStr (upper symbol)), (''orderId'', PInt order_id)] w
      in delete c ''/fapi/v1/order'' (Some p) True w1)"

subsection \<open>The update time, made readable\<close>

text \<open>
  \<open>update_time_ms / 1000\<close> is Python's true division: defined on numbers only, and an
  \<open>OverflowError\<close> when an integer quotient is beyond the floats. The library call
  \<open>datetime.fromtimestamp(t, tz=timezone.utc).strftime("%Y-%m-%d %H:%M:%S UTC")\<close> is the
  parameter \<open>utc_string\<close>: the text for the float \<open>t\<close>, or the exception it raises.
\<close>

definition int_div_1000 :: "int \<Rightarrow> exc + pyfloat" where
  "int_div_1000 n =
     (if n = 0 then Inr (Finite 0)
      else case round_mag (of_int \<bar>n\<bar> / 1000) of
             None \<Rightarrow> Inl OverflowError
           | Some r \<Rightarrow> Inr (Finite (if n < 0 then - r else r)))"

definition div_1000 :: "pyval \<Rightarrow> exc + pyfloat" where
  "div_1000 v = (case v of
       PInt n \<Rightarrow> int_div_1000 n
     | PBool b \<Rightarrow> int_div_1000 (if b then 1 else 0)
     | PFloat (Finite q) \<Rightarrow> Inr (to_double (q < 0) (\<bar>q\<bar> / 1000))
     | PFloat x \<Rightarrow> Inr x
     | _ \<Rightarrow> Inl TypeError)"

definition time_str_of :: "(pyfloat \<Rightarrow> exc + string) \<Rightarrow> pyval \<Rightarrow> exc + string" where
  "time_str_of utc_string update_time_ms =
     (case (case div_1000 update_time_ms of Inl e \<Rightarrow> Inl e | Inr t \<Rightarrow> utc_string t) of
        Inr s \<Rightarrow> Inr s
      | Inl e \<Rightarrow>
          if is_os_error e \<or> e = OverflowError \<or> is_value_error e
          then Inr (py_str update_time_ms)
          else Inl e)"

definition field :: "pydict \<Rightarrow> string \<Rightarrow> string" where
  "field order key = py_str (case map_of order key of None \<Rightarrow> PStr ''N/A'' | Some v \<Rightarrow> v)"

definition format_order_result :: "(pyfloat \<Rightarrow> exc + string) \<Rightarrow> pydict \<Rightarrow> exc + string" where
  "format_order_result utc_string order =
     (let update_time_ms = (case map_of order ''updateTime'' of None \<Rightarrow> PInt 0 | Some v \<Rightarrow> v)
      in case time_str_of utc_string update_time_ms of
           Inl e \<Rightarrow> Inl e
         | Inr time_str \<Rightarrow>
             (let border = replicate 60 (CHR ''='')
              in Inr (join [CHR 0x0A]
                   [border,
                    ''           ORDER RESULT'',
                    border,
                    ''  Order ID     : '' @ field order ''orderId'',
                    ''  Symbol       : '' @ field order ''symbol'',
                    ''  Side         : '' @ field order ''side'',
                    ''  Type         : '' @ field order ''type'',
                    ''  Status       : '' @ field order ''status'',
                    ''  Quantity     : '' @ field order ''origQty'',
                    ''  Executed Qty : '' @ field order ''executedQty'',
                    ''  Avg Price    : '' @ field order ''avgPrice'',
                    ''  Price        : '' @ field order ''price'',
                    ''  Time         : '' @ time_str,
                    border])))"

text \<open>
  The web handlers (\<open>app.py\<close>, \<open>api_place_order\<close> and \<open>api_get_order\<close>) add the readable
  time to the result under \<open>updateTimeHuman\<close>, and catch every exception of the conversion.
\<close>

definition add_update_time_human :: "(pyfloat \<Rightarrow> exc + string) \<Rightarrow> pydict \<Rightarrow> pydict" where
  "add_update_time_human utc_string result =
     (let update_ms = (case map_of result ''updateTime'' of None \<Rightarrow> PInt 0 | Some v \<Rightarrow> v)
      in AList.update ''updateTimeHuman''
           (PStr (case (case div_1000 update_ms of Inl e \<Rightarrow> Inl e | Inr t \<Rightarrow> utc_string t) of
                    Inr s \<Rightarrow> s
                  | Inl e \<Rightarrow> py_str update_ms))
           result)"

section \<open>The specification's words\<close>

text \<open>
  What the specification says of a signed request, following its words: the original
  parameters, extended with \<open>timestamp\<close>, followed by \<open>signature\<close>, the HMAC-SHA256 hex
  digest under the API secret of the URL-encoded parameters, \<open>timestamp\<close> among them and
  \<open>signature\<close> not, in the order they are transmitted.
\<close>

definition spec_signed :: "client \<Rightarrow> int \<Rightarrow> pydict \<Rightarrow> pydict" where
  "spec_signed c now params =
     (let unsigned = AList.update ''timestamp'' (PInt now) (filter (\<lambda>kv. fst kv \<noteq> ''signature'') params)
      in unsigned @ [(''signature'', PStr (hmac_sha256_hex (api_secret c) (urlencode unsigned)))])"

text \<open>
  The wallet balance of an asset entry is \<open>float(asset.get("walletBalance", 0))\<close>, when
  that is defined; an entry is kept when its wallet balance is greater than zero.
\<close>

definition wallet_balance :: "pyval \<Rightarrow> pyfloat option" where
  "wallet_balance asset =
     (case py_get asset ''walletBalance'' (PInt 0) of
        Inl e \<Rightarrow> None
      | Inr b \<Rightarrow> (case py_float b of Inl e \<Rightarrow> None | Inr x \<Rightarrow> Some x))"

definition has_wallet :: "pyval \<Rightarrow> bool" where
  "has_wallet asset = (wallet_balance asset \<noteq> None)"

definition positive_wallet :: "pyval \<Rightarrow> bool" where
  "positive_wallet asset = (case wallet_balance asset of None \<Rightarrow> False | Some x \<Rightarrow> float_gt_int x 0)"

text \<open>
  The symbol of an exchange-info entry; a match that ignores case compares the upper-case
  forms of both sides.
\<close>

definition is_dict :: "pyval \<Rightarrow> bool" where
  "is_dict v = (case v of PDict kvs \<Rightarrow> True | _ \<Rightarrow> False)"

definition symbol_of :: "pyval \<Rightarrow> pyval" where
  "symbol_of sym_info = (case sym_info of
       PDict kvs \<Rightarrow> (case map_of kvs ''symbol'' of None \<Rightarrow> PNone | Some v \<Rightarrow> v)
     | _ \<Rightarrow> PNone)"

definition matches_ignoring_case :: "pyval \<Rightarrow> string \<Rightarrow> bool" where
  "matches_ignoring_case sym_info symbol =
     (case symbol_of sym_info of PStr s \<Rightarrow> upper s = upper symbol | _ \<Rightarrow> False)"

definition upper_case_symbol :: "pyval \<Rightarrow> bool" where
  "upper_case_symbol sym_info = (case symbol_of sym_info of PStr s \<Rightarrow> upper s = s | _ \<Rightarrow> True)"

section \<open>Example worlds\<close>

text \<open>
  A client, a transport that answers every request with one response, and a world with
  an empty heap at a fixed time, for the concrete instances below. Where the code does not
  read the body text of a response (status 200), the instances leave it empty.
\<close>

definition dquoted :: "string \<Rightarrow> string" where
  "dquoted s = [CHR 0x22] @ s @ [CHR 0x22]"

definition example_client :: client where
  "example_client = \<lparr>api_key = ''key'', api_secret = ''secret'',
                      base_url = ''https://testnet.binancefuture.com''\<rparr>"

definition answers :: "http_response \<Rightarrow> http_request \<Rightarrow> exc + http_response" where
  "answers response req = Inr response"

definition example_world :: "(http_request \<Rightarrow> exc + http_response) \<Rightarrow> world" where
  "example_world net = \<lparr>heap = (\<lambda>a. []), fresh = 0, now_ms = 1700000000000, network = net, sent = []\<rparr>"

section \<open>Properties of the validators\<close>

lemma float_of_str_nan: "float_of_str ''nan'' = Some NaN"
  by code_simp

lemma accepted_quantity:
  "(\<not> float_le_int v 0 \<and> \<not> float_gt_int v 1000000)
     = (v = NaN \<or> (\<exists>q. v = Finite q \<and> 0 < q \<and> q \<le> 1000000))"
  by (cases v) (auto simp: float_le_int_def float_gt_int_def)

lemma accepted_price:
  "(\<not> float_le_int v 0) = (v = NaN \<or> v = PosInf \<or> (\<exists>q. v = Finite q \<and> 0 < q))"
  by (cases v) (auto simp: float_le_int_def)

lemma validate_quantity_returns:
  "(validate_quantity s = Inr v)
     = (float_of_str s = Some v \<and> (v = NaN \<or> (\<exists>q. v = Finite q \<and> 0 < q \<and> q \<le> 1000000)))"
  unfolding accepted_quantity [symmetric]
  by (auto simp: validate_quantity_def split: option.splits)

lemma validate_quantity_fails:
  "(\<exists>m. validate_quantity s = Inl (BadParameter m ''--quantity''))
     = (\<forall>v. validate_quantity s \<noteq> Inr v)"
  by (auto simp: validate_quantity_def split: option.splits)

lemma validate_quantity_examples:
  "(\<forall>v. validate_quantity ''0'' \<noteq> Inr v)
   \<and> (\<forall>v. validate_quantity ''-1'' \<noteq> Inr v)
   \<and> (\<forall>v. validate_quantity ''1_000_000.000001'' \<noteq> Inr v)
   \<and> validate_quantity ''1_000_000'' = Inr (Finite 1000000)
   \<and> validate_quantity ''0.00000001'' = Inr (Finite (3022314549036573 / 302231454903657293676544))"
proof -
  have a: "float_of_str ''0'' = Some (Finite 0)" by code_simp
  have b: "float_of_str ''-1'' = Some (Finite (- 1))" by code_simp
  have c: "float_of_str ''1_000_000.000001'' = Some (Finite (4294967296004295 / 4294967296))"
    by code_simp
  have d: "float_of_str ''1_000_000'' = Some (Finite 1000000)" by code_simp
  have e: "float_of_str ''0.00000001'' = Some (Finite (3022314549036573 / 302231454903657293676544))"
    by code_simp
  have fails: "\<forall>v. validate_quantity ''0'' \<noteq> Inr v" "\<forall>v. validate_quantity ''-1'' \<noteq> Inr v"
    "\<forall>v. validate_quantity ''1_000_000.000001'' \<noteq> Inr v"
    unfolding validate_quantity_returns a b c by simp_all
  have succeeds: "validate_quantity ''1_000_000'' = Inr (Finite 1000000)"
    "validate_quantity ''0.00000001'' = Inr (Finite (3022314549036573 / 302231454903657293676544))"
    by (simp_all add: validate_quantity_def d e float_le_int_def float_gt_int_def)
  from fails succeeds show ?thesis by blast
qed

lemma validate_quantity_negative:
  "float_of_str s = Some (Finite q) \<Longrightarrow> q \<le> 0 \<Longrightarrow> \<exists>m. validate_quantity s = Inl (BadParameter m ''--quantity'')"
  by (simp add: validate_quantity_def float_le_int_def)

text \<open>
  C4. The claim: \<open>validate_quantity\<close> returns the parsed value exactly when the string
  parses as a real number \<open>q\<close> with \<open>0 < q \<le> 1,000,000\<close>, and fails otherwise. The code
  tests \<open>qty <= 0\<close> and \<open>qty > 1_000_000\<close>; both are false for NaN, so the string
  \<open>nan\<close>, which \<open>float()\<close> accepts, is returned as a valid quantity.
\<close>

theorem validate_quantity_accepts_nan:
  "validate_quantity ''nan'' = Inr NaN"
  by (simp add: validate_quantity_def float_of_str_nan float_le_int_def float_gt_int_def)

lemma validate_price_no_price_types:
  "order_type = ''MARKET'' \<or> order_type = ''STOP_MARKET'' \<Longrightarrow>
     validate_price None order_type = Inr None
     \<and> (\<exists>m. validate_price (Some p) order_type = Inl (BadParameter m ''--price''))"
  by (auto simp: validate_price_def)

lemma validate_price_limit_returns:
  "order_type \<noteq> ''MARKET'' \<Longrightarrow> order_type \<noteq> ''STOP_MARKET'' \<Longrightarrow>
     (validate_price price order_type = Inr r)
       = (\<exists>p v. price = Some p \<and> float_of_str p = Some v \<and> r = Some v
              \<and> (v = NaN \<or> v = PosInf \<or> (\<exists>q. v = Finite q \<and> 0 < q)))"
  unfolding accepted_price [symmetric]
  by (auto simp: validate_price_def split: option.splits)

lemma validate_price_fails:
  "(\<exists>m. validate_price price order_type = Inl (BadParameter m ''--price''))
     = (\<forall>r. validate_price price order_type \<noteq> Inr r)"
  by (auto simp: validate_price_def split: option.splits)

text \<open>
  C5. The claim: for LIMIT and STOP_LIMIT, \<open>validate_price\<close> fails when the price is
  absent, does not parse as a real number or is not strictly greater than 0. The code
  tests \<open>parsed_price <= 0\<close>, which is false for NaN: the price \<open>nan\<close> is returned.
\<close>

theorem validate_price_accepts_nan:
  "validate_price (Some ''nan'') ''LIMIT'' = Inr (Some NaN)
   \<and> validate_price (Some ''nan'') ''STOP_LIMIT'' = Inr (Some NaN)"
  by (simp add: validate_price_def float_of_str_nan float_le_int_def)

lemma validate_stop_price_other_types:
  "order_type \<noteq> ''STOP_MARKET'' \<Longrightarrow> order_type \<noteq> ''STOP_LIMIT'' \<Longrightarrow>
     validate_stop_price stop_price order_type = Inr None"
  by (simp add: validate_stop_price_def)

lemma validate_stop_price_returns:
  "order_type = ''STOP_MARKET'' \<or> order_type = ''STOP_LIMIT'' \<Longrightarrow>
     (validate_stop_price stop_price order_type = Inr r)
       = (\<exists>p v. stop_price = Some p \<and> float_of_str p = Some v \<and> r = Some v
              \<and> (v = NaN \<or> v = PosInf \<or> (\<exists>q. v = Finite q \<and> 0 < q)))"
  unfolding accepted_price [symmetric]
  by (auto simp: validate_stop_price_def split: option.splits)

lemma validate_stop_price_fails:
  "(\<exists>m. validate_stop_price stop_price order_type = Inl (BadParameter m ''--stop-price''))
     = (\<forall>r. validate_stop_price stop_price order_type \<noteq> Inr r)"
  by (auto simp: validate_stop_price_def split: option.splits)

lemma api_stop_price_other_types:
  "order_type \<noteq> ''STOP_MARKET'' \<Longrightarrow> order_type \<noteq> ''STOP_LIMIT'' \<Longrightarrow>
     api_stop_price data order_type = Continue None"
  by (simp add: api_stop_price_def)

text \<open>
  C6. The claim: for STOP_MARKET and STOP_LIMIT the stop price fails validation when it
  is absent, does not parse as a real number or is not strictly greater than 0. Both the
  command line (\<open>_validate_stop_price\<close>) and the web handler test \<open>parsed <= 0\<close>, false
  for NaN: the stop price \<open>nan\<close> is accepted by both.
\<close>

theorem stop_price_accepts_nan:
  "validate_stop_price (Some ''nan'') ''STOP_MARKET'' = Inr (Some NaN)
   \<and> api_stop_price [(''stop_price'', PStr ''nan'')] ''STOP_MARKET'' = Continue (Some NaN)"
  by (simp add: validate_stop_price_def api_stop_price_def py_truthy_def py_float_def
      float_of_str_nan float_le_int_def)

section \<open>Properties of the order parameters\<close>

lemma upper_examples:
  "upper ''BTCUSDT'' = ''BTCUSDT''" "upper ''BUY'' = ''BUY''" "upper ''SELL'' = ''SELL''"
  "upper ''MARKET'' = ''MARKET''" "upper ''LIMIT'' = ''LIMIT''"
  "upper ''STOP_MARKET'' = ''STOP_MARKET''" "upper ''STOP_LIMIT'' = ''STOP_LIMIT''"
  "upper ''ethusdt'' = ''ETHUSDT''" "upper ''sell'' = ''SELL''" "upper ''btcusdt'' = ''BTCUSDT''"
  by code_simp+

lemma float_examples:
  "float_of_str ''0.01'' = Some (Finite (5764607523034235 / 576460752303423488))"
  "float_of_str ''50000'' = Some (Finite 50000)"
  "float_of_str ''2.5'' = Some (Finite (5 / 2))"
  "float_of_str ''3000'' = Some (Finite 3000)"
  "float_of_str ''2950'' = Some (Finite 2950)"
  "float_of_str ''12.5'' = Some (Finite (25 / 2))"
  "float_of_str ''0'' = Some (Finite 0)"
  by code_simp+

lemma float_repr_examples:
  "float_repr (Finite (5764607523034235 / 576460752303423488)) = ''0.01''"
  "float_repr (Finite 50000) = ''50000.0''"
  "float_repr (Finite (5 / 2)) = ''2.5''"
  "float_repr (Finite 3000) = ''3000.0''"
  "float_repr (Finite 2950) = ''2950.0''"
  by code_simp+

lemma int_str_50000: "int_str 50000 = ''50000''"
  by code_simp

lemma validated_limit_example:
  "validate_quantity ''0.01'' = Inr (Finite (5764607523034235 / 576460752303423488))"
  "validate_price (Some ''50000'') ''LIMIT'' = Inr (Some (Finite 50000))"
  by (simp_all add: validate_quantity_def validate_price_def float_examples float_le_int_def
      float_gt_int_def)

text \<open>
  C3, as stated, fails on its example. The claim: the LIMIT example (BTCUSDT, BUY,
  quantity 0.01, price 50000, GTC), a validated order, yields exactly \<open>symbol=BTCUSDT,
  side=BUY, type=LIMIT, quantity=0.01, price=50000, timeInForce=GTC\<close>. The validators
  return floats: for the texts \<open>0.01\<close> and \<open>50000\<close> the floats 0.01 and 50000.0, and
  \<open>str\<close> of the float 50000.0 is \<open>50000.0\<close>. The parameter set of the validated order
  holds \<open>price=50000.0\<close>, not \<open>price=50000\<close>.
\<close>

theorem order_params_limit_example_counterexample:
  "validate_quantity ''0.01'' = Inr (Finite (5764607523034235 / 576460752303423488))
   \<and> validate_price (Some ''50000'') ''LIMIT'' = Inr (Some (Finite 50000))
   \<and> order_params ''BTCUSDT'' ''BUY'' ''LIMIT''
         (PFloat (Finite (5764607523034235 / 576460752303423488))) (PFloat (Finite 50000)) ''GTC'' PNone
       \<noteq> Inr [(''symbol'', PStr ''BTCUSDT''), (''side'', PStr ''BUY''), (''type'', PStr ''LIMIT''),
              (''quantity'', PStr ''0.01''), (''price'', PStr ''50000''), (''timeInForce'', PStr ''GTC'')]"
  by (simp add: validated_limit_example order_params_def upper_examples float_repr_examples py_str_def)

text \<open>
  C3, amended. For every order, \<open>place_order\<close> builds the base parameters (symbol, side,
  type, each in upper case, and the quantity as its string) and then, by type: nothing
  more for MARKET; price and timeInForce for LIMIT; stopPrice for STOP_MARKET; price,
  stopPrice and timeInForce for STOP_LIMIT, each price as its string. When a required
  price or stop price is missing it fails with a \<open>ValueError\<close>, and then \<open>place_order\<close>
  leaves the world as it was: nothing is sent. The LIMIT example (BTCUSDT, BUY, GTC) with
  the floats 0.01 and 50000.0, as validated, yields exactly \<open>symbol=BTCUSDT, side=BUY,
  type=LIMIT, quantity=0.01, price=50000.0, timeInForce=GTC\<close>; it yields \<open>price=50000\<close>
  when the price is passed as the integer 50000.
\<close>

theorem order_params_by_type:
  fixes symbol side order_type time_in_force :: string
    and quantity price stop_price :: pyval and c :: client and w :: world
  defines "base \<equiv> [(''symbol'', PStr (upper symbol)), (''side'', PStr (upper side)),
                    (''type'', PStr (upper order_type)), (''quantity'', PStr (py_str quantity))]"
  defines "built \<equiv> order_params symbol side order_type quantity price time_in_force stop_price"
  shows
    "(upper order_type = ''MARKET'' \<longrightarrow> built = Inr base)
   \<and> (upper order_type = ''LIMIT'' \<longrightarrow>
        (price \<noteq> PNone \<longrightarrow>
           built = Inr (base @ [(''price'', PStr (py_str price)), (''timeInForce'', PStr time_in_force)]))
        \<and> (price = PNone \<longrightarrow> (\<exists>m. built = Inl (ValueError m))))
   \<and> (upper order_type = ''STOP_MARKET'' \<longrightarrow>
        (stop_price \<noteq> PNone \<longrightarrow> built = Inr (base @ [(''stopPrice'', PStr (py_str stop_price))]))
        \<and> (stop_price = PNone \<longrightarrow> (\<exists>m. built = Inl (ValueError m))))
   \<and> (upper order_type = ''STOP_LIMIT'' \<longrightarrow>
        (price \<noteq> PNone \<and> stop_price \<noteq> PNone \<longrightarrow>
           built = Inr (base @ [(''price'', PStr (py_str price)), (''stopPrice'', PStr (py_str stop_price)),
                                (''timeInForce'', PStr time_in_force)]))
        \<and> (price = PNone \<or> stop_price = PNone \<longrightarrow> (\<exists>m. built = Inl (ValueError m))))
   \<and> (\<forall>e. built = Inl e \<longrightarrow>
        place_order c symbol side order_type quantity price time_in_force stop_price w = (Inl e, w))
   \<and> order_params ''BTCUSDT'' ''BUY'' ''LIMIT''
         (PFloat (Finite (5764607523034235 / 576460752303423488))) (PFloat (Finite 50000)) ''GTC'' PNone
       = Inr [(''symbol'', PStr ''BTCUSDT''), (''side'', PStr ''BUY''), (''type'', PStr ''LIMIT''),
              (''quantity'', PStr ''0.01''), (''price'', PStr ''50000.0''), (''timeInForce'', PStr ''GTC'')]
   \<and> order_params ''BTCUSDT'' ''BUY'' ''LIMIT''
         (PFloat (Finite (5764607523034235 / 576460752303423488))) (PInt 50000) ''GTC'' PNone
       = Inr [(''symbol'', PStr ''BTCUSDT''), (''side'', PStr ''BUY''), (''type'', PStr ''LIMIT''),
              (''quantity'', PStr ''0.01''), (''price'', PStr ''50000''), (''timeInForce'', PStr ''GTC'')]"
proof -
  have by_type: "(upper order_type = ''MARKET'' \<longrightarrow> built = Inr base)
   \<and> (upper order_type = ''LIMIT'' \<longrightarrow>
        (price \<noteq> PNone \<longrightarrow>
           built = Inr (base @ [(''price'', PStr (py_str price)), (''timeInForce'', PStr time_in_force)]))
        \<and> (price = PNone \<longrightarrow> (\<exists>m. built = Inl (ValueError m))))
   \<and> (upper order_type = ''STOP_MARKET'' \<longrightarrow>
        (stop_price \<noteq> PNone \<longrightarrow> built = Inr (base @ [(''stopPrice'', PStr (py_str stop_price))]))
        \<and> (stop_price = PNone \<longrightarrow> (\<exists>m. built = Inl (ValueError m))))
   \<and> (upper order_type = ''STOP_LIMIT'' \<longrightarrow>
        (price \<noteq> PNone \<and> stop_price \<noteq> PNone \<longrightarrow>
           built = Inr (base @ [(''price'', PStr (py_str price)), (''stopPrice'', PStr (py_str stop_price)),
                                (''timeInForce'', PStr time_in_force)]))
        \<and> (price = PNone \<or> stop_price = PNone \<longrightarrow> (\<exists>m. built = Inl (ValueError m))))"
    unfolding base_def built_def
    by (auto simp: order_params_def)
  have no_call: "\<forall>e. built = Inl e \<longrightarrow>
        place_order c symbol side order_type quantity price time_in_force stop_price w = (Inl e, w)"
    unfolding built_def by (simp add: place_order_def)
  have example: "order_params ''BTCUSDT'' ''BUY'' ''LIMIT''
         (PFloat (Finite (5764607523034235 / 576460752303423488))) (PFloat (Finite 50000)) ''GTC'' PNone
       = Inr [(''symbol'', PStr ''BTCUSDT''), (''side'', PStr ''BUY''), (''type'', PStr ''LIMIT''),
              (''quantity'', PStr ''0.01''), (''price'', PStr ''50000.0''), (''timeInForce'', PStr ''GTC'')]"
    by (simp add: order_params_def upper_examples float_repr_examples py_str_def)
  have example_int: "order_params ''BTCUSDT'' ''BUY'' ''LIMIT''
         (PFloat (Finite (5764607523034235 / 576460752303423488))) (PInt 50000) ''GTC'' PNone
       = Inr [(''symbol'', PStr ''BTCUSDT''), (''side'', PStr ''BUY''), (''type'', PStr ''LIMIT''),
              (''quantity'', PStr ''0.01''), (''price'', PStr ''50000''), (''timeInForce'', PStr ''GTC'')]"
    by (simp add: order_params_def upper_examples float_repr_examples py_str_def int_str_50000)
  from by_type no_call example example_int show ?thesis by blast
qed

theorem order_params_by_type_witness:
  "order_params ''BTCUSDT'' ''BUY'' ''MARKET'' (PFloat (Finite (5 / 2))) PNone ''GTC'' PNone
     = Inr [(''symbol'', PStr ''BTCUSDT''), (''side'', PStr ''BUY''), (''type'', PStr ''MARKET''),
            (''quantity'', PStr ''2.5'')]
   \<and> order_params ''BTCUSDT'' ''SELL'' ''STOP_MARKET'' (PFloat (Finite (5 / 2))) PNone ''GTC''
        (PFloat (Finite 2950))
     = Inr [(''symbol'', PStr ''BTCUSDT''), (''side'', PStr ''SELL''), (''type'', PStr ''STOP_MARKET''),
            (''quantity'', PStr ''2.5''), (''stopPrice'', PStr ''2950.0'')]
   \<and> order_params ''ethusdt'' ''sell'' ''STOP_LIMIT'' (PFloat (Finite (5 / 2))) (PFloat (Finite 3000))
        ''GTC'' (PFloat (Finite 2950))
     = Inr [(''symbol'', PStr ''ETHUSDT''), (''side'', PStr ''SELL''), (''type'', PStr ''STOP_LIMIT''),
            (''quantity'', PStr ''2.5''), (''price'', PStr ''3000.0''), (''stopPrice'', PStr ''2950.0''),
            (''timeInForce'', PStr ''GTC'')]
   \<and> place_order example_client ''BTCUSDT'' ''BUY'' ''LIMIT'' (PFloat (Finite (5 / 2))) PNone ''GTC'' PNone
        (example_world (answers \<lparr>status_code = 200, resp_text = ''{}'', resp_json = Some (PDict [])\<rparr>))
     = (Inl (ValueError ''Price is required for LIMIT orders.''),
        example_world (answers \<lparr>status_code = 200, resp_text = ''{}'', resp_json = Some (PDict [])\<rparr>))"
proof -
  let ?w = "example_world (answers \<lparr>status_code = 200, resp_text = ''{}'', resp_json = Some (PDict [])\<rparr>)"
  note t = order_params_by_type
  have market: "order_params ''BTCUSDT'' ''BUY'' ''MARKET'' (PFloat (Finite (5 / 2))) PNone ''GTC'' PNone
     = Inr [(''symbol'', PStr ''BTCUSDT''), (''side'', PStr ''BUY''), (''type'', PStr ''MARKET''),
            (''quantity'', PStr ''2.5'')]"
    using t [where order_type = "''MARKET''" and symbol = "''BTCUSDT''" and side = "''BUY''"
               and quantity = "PFloat (Finite (5 / 2))" and price = PNone and time_in_force = "''GTC''"
               and stop_price = PNone]
    by (simp add: upper_examples float_repr_examples py_str_def)
  have stop_market: "order_params ''BTCUSDT'' ''SELL'' ''STOP_MARKET'' (PFloat (Finite (5 / 2))) PNone ''GTC''
        (PFloat (Finite 2950))
     = Inr [(''symbol'', PStr ''BTCUSDT''), (''side'', PStr ''SELL''), (''type'', PStr ''STOP_MARKET''),
            (''quantity'', PStr ''2.5''), (''stopPrice'', PStr ''2950.0'')]"
    using t [where order_type = "''STOP_MARKET''" and symbol = "''BTCUSDT''" and side = "''SELL''"
               and quantity = "PFloat (Finite (5 / 2))" and price = PNone and time_in_force = "''GTC''"
               and stop_price = "PFloat (Finite 2950)"]
    by (simp add: upper_examples float_repr_examples py_str_def)
  have stop_limit: "order_params ''ethusdt'' ''sell'' ''STOP_LIMIT'' (PFloat (Finite (5 / 2)))
        (PFloat (Finite 3000)) ''GTC'' (PFloat (Finite 2950))
     = Inr [(''symbol'', PStr ''ETHUSDT''), (''side'', PStr ''SELL''), (''type'', PStr ''STOP_LIMIT''),
            (''quantity'', PStr ''2.5''), (''price'', PStr ''3000.0''), (''stopPrice'', PStr ''2950.0''),
            (''timeInForce'', PStr ''GTC'')]"
    using t [where order_type = "''STOP_LIMIT''" and symbol = "''ethusdt''" and side = "''sell''"
               and quantity = "PFloat (Finite (5 / 2))" and price = "PFloat (Finite 3000)"
               and time_in_force = "''GTC''" and stop_price = "PFloat (Finite 2950)"]
    by (simp add: upper_examples float_repr_examples py_str_def)
  have missing: "order_params ''BTCUSDT'' ''BUY'' ''LIMIT'' (PFloat (Finite (5 / 2))) PNone ''GTC'' PNone
     = Inl (ValueError ''Price is required for LIMIT orders.'')"
    by (simp add: order_params_def upper_examples)
  have no_call: "place_order example_client ''BTCUSDT'' ''BUY'' ''LIMIT'' (PFloat (Finite (5 / 2))) PNone
        ''GTC'' PNone ?w
     = (Inl (ValueError ''Price is required for LIMIT orders.''), ?w)"
    using t [where order_type = "''LIMIT''" and symbol = "''BTCUSDT''" and side = "''BUY''"
               and quantity = "PFloat (Finite (5 / 2))" and price = PNone and time_in_force = "''GTC''"
               and stop_price = PNone and c = example_client and w = ?w]
      missing
    by simp
  from market stop_market stop_limit no_call show ?thesis by blast
qed

section \<open>Properties of the response handling\<close>

lemma handle_response_ok:
  "status_code r = 200 \<Longrightarrow> resp_json r = Some body \<Longrightarrow> handle_response r = Inr body"
  by (simp add: handle_response_def)

lemma handle_response_error_object:
  "status_code r \<noteq> 200 \<Longrightarrow> resp_json r = Some (PDict kvs) \<Longrightarrow>
     handle_response r =
       Inl (HTTPError (''Binance API Error '' @ int_str (status_code r) @ '': ''
              @ py_str (case map_of kvs ''code'' of None \<Rightarrow> PStr ''N/A'' | Some v \<Rightarrow> v)
              @ '' '' @ em_dash @ '' ''
              @ py_str (case map_of kvs ''msg'' of None \<Rightarrow> PStr (resp_text r) | Some v \<Rightarrow> v)) r)"
  by (simp add: handle_response_def)

lemma handle_response_error_text:
  "status_code r \<noteq> 200 \<Longrightarrow> resp_json r = None \<Longrightarrow>
     handle_response r =
       Inl (HTTPError (''Binance API Error '' @ int_str (status_code r) @ '': N/A ''
              @ em_dash @ '' '' @ resp_text r) r)"
  by (simp add: handle_response_def)

lemma int_str_examples: "int_str 400 = ''400''" "int_str (- 1121) = ''-1121''"
  by code_simp+

lemma handle_response_invalid_symbol:
  fixes r
  defines "r \<equiv> \<lparr>status_code = 400,
                 resp_text = ''{'' @ dquoted ''code'' @ '': -1121, '' @ dquoted ''msg'' @ '': ''
                               @ dquoted ''Invalid symbol.'' @ ''}'',
                 resp_json = Some (PDict [(''code'', PInt (- 1121)), (''msg'', PStr ''Invalid symbol.'')])\<rparr>"
  shows "handle_response r
           = Inl (HTTPError (''Binance API Error 400: -1121 '' @ em_dash @ '' Invalid symbol.'') r)"
    and "sublist ''-1121'' (''Binance API Error 400: -1121 '' @ em_dash @ '' Invalid symbol.'')"
    and "sublist ''Invalid symbol.'' (''Binance API Error 400: -1121 '' @ em_dash @ '' Invalid symbol.'')"
proof -
  show "handle_response r
           = Inl (HTTPError (''Binance API Error 400: -1121 '' @ em_dash @ '' Invalid symbol.'') r)"
    by (simp add: handle_response_def r_def int_str_examples py_str_def)
  have "''Binance API Error 400: -1121 '' @ em_dash @ '' Invalid symbol.''
          = ''Binance API Error 400: '' @ ''-1121'' @ ('' '' @ em_dash @ '' Invalid symbol.'')"
    by simp
  then show "sublist ''-1121'' (''Binance API Error 400: -1121 '' @ em_dash @ '' Invalid symbol.'')"
    unfolding sublist_def by blast
  have "''Binance API Error 400: -1121 '' @ em_dash @ '' Invalid symbol.''
          = (''Binance API Error 400: -1121 '' @ em_dash @ '' '') @ ''Invalid symbol.'' @ []"
    by simp
  then show "sublist ''Invalid symbol.'' (''Binance API Error 400: -1121 '' @ em_dash @ '' Invalid symbol.'')"
    unfolding sublist_def by blast
qed

text \<open>
  C2. The claim: for any status other than 200 the call fails with a RemoteAPIError
  (\<open>requests.HTTPError\<close>) carrying the status code, the error code and the message. The
  code reads the code and the message with \<open>error_body.get\<close> and catches \<open>ValueError\<close>
  only: when the body is JSON but not an object (an array, a string, a number, \<open>null\<close>)
  the \<open>get\<close> raises \<open>AttributeError\<close>, which escapes in place of the \<open>HTTPError\<close> the
  docstring promises for every status other than 200.
\<close>

theorem handle_response_json_array:
  "handle_response \<lparr>status_code = 500, resp_text = ''[]'', resp_json = Some (PList [])\<rparr>
     = Inl AttributeError"
  by (simp add: handle_response_def)

section \<open>Properties of the account balance\<close>

lemma positive_balances_wf:
  "list_all has_wallet assets \<Longrightarrow> positive_balances assets = Inr (filter positive_wallet assets)"
  by (induction assets)
     (auto simp: has_wallet_def positive_wallet_def wallet_balance_def split: sum.splits)

lemma positive_balances_returns:
  "positive_balances assets = Inr r \<Longrightarrow> r = filter positive_wallet assets"
  by (induction assets arbitrary: r)
     (auto simp: positive_wallet_def wallet_balance_def split: sum.splits if_splits)

lemma fst_get_account_balance:
  "fst (get c ''/fapi/v2/account'' None True w) = Inr data \<Longrightarrow>
     fst (get_account_balance c w) = account_balance_of data"
  by (cases "get c ''/fapi/v2/account'' None True w") (simp add: get_account_balance_def)

text \<open>
  C7. When the signed GET of the account succeeds with a body whose \<open>assets\<close> is a list,
  \<open>get_account_balance\<close> returns, in the exchange's order, exactly the entries whose
  wallet balance is greater than zero: it does so whenever every entry has a wallet
  balance (an object whose \<open>walletBalance\<close>, 0 when absent, is accepted by \<open>float()\<close>),
  and whatever it returns is that list. Over the assets USDT with balance \<open>0\<close> and BNB
  with balance \<open>12.5\<close> it returns the BNB entry only.
\<close>

theorem get_account_balance_positive:
  assumes "fst (get c ''/fapi/v2/account'' None True w) = Inr data"
    and "py_get data ''assets'' (PList []) = Inr (PList assets)"
  shows "(list_all has_wallet assets \<longrightarrow>
            fst (get_account_balance c w) = Inr (filter positive_wallet assets))
       \<and> (\<forall>r. fst (get_account_balance c w) = Inr r \<longrightarrow> r = filter positive_wallet assets)
       \<and> account_balance_of (PDict [(''assets'', PList
             [PDict [(''asset'', PStr ''USDT''), (''walletBalance'', PStr ''0'')],
              PDict [(''asset'', PStr ''BNB''), (''walletBalance'', PStr ''12.5'')]])])
           = Inr [PDict [(''asset'', PStr ''BNB''), (''walletBalance'', PStr ''12.5'')]]"
proof -
  have eq: "fst (get_account_balance c w) = positive_balances assets"
    using assms by (simp add: fst_get_account_balance account_balance_of_def py_iter_def)
  have example: "account_balance_of (PDict [(''assets'', PList
             [PDict [(''asset'', PStr ''USDT''), (''walletBalance'', PStr ''0'')],
              PDict [(''asset'', PStr ''BNB''), (''walletBalance'', PStr ''12.5'')]])])
           = Inr [PDict [(''asset'', PStr ''BNB''), (''walletBalance'', PStr ''12.5'')]]"
    by (simp add: account_balance_of_def py_get_def py_iter_def py_float_def float_examples
        float_gt_int_def)
  from eq example show ?thesis
    by (auto simp: positive_balances_wf dest: positive_balances_returns)
qed

lemma fst_get_answers:
  "fst (get c endpoint params signed' (example_world (answers r))) = handle_response r"
  by (simp add: get_def prepare_def alloc_def sign_def send_def example_world_def answers_def
      split_def Let_def split: option.splits)

theorem get_account_balance_positive_witness:
  "fst (get_account_balance example_client
         (example_world (answers \<lparr>status_code = 200, resp_text = [],
            resp_json = Some (PDict [(''assets'', PList
              [PDict [(''asset'', PStr ''USDT''), (''walletBalance'', PStr ''0'')],
               PDict [(''asset'', PStr ''BNB''), (''walletBalance'', PStr ''12.5'')],
               PDict [(''asset'', PStr ''BTC'')]])])\<rparr>)))
     = Inr [PDict [(''asset'', PStr ''BNB''), (''walletBalance'', PStr ''12.5'')]]"
proof -
  let ?assets = "[PDict [(''asset'', PStr ''USDT''), (''walletBalance'', PStr ''0'')],
               PDict [(''asset'', PStr ''BNB''), (''walletBalance'', PStr ''12.5'')],
               PDict [(''asset'', PStr ''BTC'')]]"
  let ?data = "PDict [(''assets'', PList ?assets)]"
  let ?w = "example_world (answers \<lparr>status_code = 200, resp_text = [], resp_json = Some ?data\<rparr>)"
  have got: "fst (get example_client ''/fapi/v2/account'' None True ?w) = Inr ?data"
    by (simp add: fst_get_answers handle_response_def)
  have assets: "py_get ?data ''assets'' (PList []) = Inr (PList ?assets)"
    by (simp add: py_get_def)
  have wb: "wallet_balance (?assets ! 0) = Some (Finite 0)"
    "wallet_balance (?assets ! 1) = Some (Finite (25 / 2))"
    "wallet_balance (?assets ! 2) = Some (Finite 0)"
    by (simp_all add: wallet_balance_def py_get_def py_float_def float_examples int_to_float_def)
  have wf: "list_all has_wallet ?assets"
    using wb by (simp add: has_wallet_def)
  have kept: "filter positive_wallet ?assets = [PDict [(''asset'', PStr ''BNB''), (''walletBalance'', PStr ''12.5'')]]"
    using wb by (simp add: positive_wallet_def float_gt_int_def)
  have "fst (get_account_balance example_client ?w) = Inr (filter positive_wallet ?assets)"
    using get_account_balance_positive [OF got assets, THEN conjunct1] wf by (rule mp)
  then show ?thesis unfolding kept .
qed

section \<open>Properties of the symbol lookup\<close>

lemma upper_char_idem: "upper_char (upper_char c) = upper_char c"
proof (cases "97 \<le> (of_char c :: nat) \<and> (of_char c :: nat) \<le> 122")
  case True
  then have less: "(of_char c :: nat) - 32 < 256"
    by arith
  have up: "upper_char c = char_of ((of_char c :: nat) - 32)"
    using True by (simp add: upper_char_def Let_def)
  have "(of_char (char_of ((of_char c :: nat) - 32) :: char) :: nat) = of_char c - 32"
    using less by simp
  with True have "\<not> (97 \<le> (of_char (char_of ((of_char c :: nat) - 32) :: char) :: nat))"
    by arith
  then have "upper_char (char_of ((of_char c :: nat) - 32)) = char_of ((of_char c :: nat) - 32)"
    by (simp add: upper_char_def Let_def)
  with up show ?thesis by simp
next
  case False
  then have "upper_char c = c"
    by (auto simp: upper_char_def Let_def)
  then show ?thesis by simp
qed

lemma upper_idem: "upper (upper s) = upper s"
  by (simp add: upper_def upper_char_idem)

lemma find_Some_holds: "find P xs = Some x \<Longrightarrow> x \<in> set xs \<and> P x"
  by (induction xs) (auto split: if_splits)

lemma find_symbol_find:
  "list_all is_dict xs \<Longrightarrow>
     find_symbol xs symbol =
       (case find (\<lambda>e. symbol_of e = PStr (upper symbol)) xs of
          Some e \<Rightarrow> Inr e
        | None \<Rightarrow> Inl (symbol_not_found symbol))"
  by (induction xs) (auto simp: is_dict_def symbol_of_def py_get_def split: pyval.splits)

lemma upper_case_match:
  "upper_case_symbol e \<Longrightarrow> (symbol_of e = PStr (upper symbol)) = matches_ignoring_case e symbol"
  by (auto simp: upper_case_symbol_def matches_ignoring_case_def upper_idem split: pyval.splits)

lemma find_upper_case:
  "list_all upper_case_symbol xs \<Longrightarrow>
     find (\<lambda>e. symbol_of e = PStr (upper symbol)) xs = find (\<lambda>e. matches_ignoring_case e symbol) xs"
  by (induction xs) (simp_all add: upper_case_match)

lemma fst_get_exchange_info:
  "fst (get c ''/fapi/v1/exchangeInfo'' None False w) = Inr data \<Longrightarrow>
     fst (get_exchange_info c symbol w) = exchange_info_of data symbol"
  by (cases "get c ''/fapi/v1/exchangeInfo'' None False w") (simp add: get_exchange_info_def)

text \<open>
  C8, as stated, fails. The claim: \<open>get_exchange_info\<close> returns the entry whose symbol
  matches the query whatever the case of either, and fails exactly when no entry does.
  The code compares each entry's symbol, as it is, with the upper-cased query: an entry
  listed as \<open>btcusdt\<close> is not found by the query \<open>btcusdt\<close>, which it matches.
\<close>

theorem get_exchange_info_counterexample:
  "matches_ignoring_case (PDict [(''symbol'', PStr ''btcusdt'')]) ''btcusdt''
   \<and> fst (get_exchange_info example_client ''btcusdt''
          (example_world (answers \<lparr>status_code = 200, resp_text = [],
             resp_json = Some (PDict [(''symbols'', PList [PDict [(''symbol'', PStr ''btcusdt'')]])])\<rparr>)))
       = Inl (symbol_not_found ''btcusdt'')"
proof -
  let ?data = "PDict [(''symbols'', PList [PDict [(''symbol'', PStr ''btcusdt'')]])]"
  have got: "fst (get example_client ''/fapi/v1/exchangeInfo'' None False
               (example_world (answers \<lparr>status_code = 200, resp_text = [], resp_json = Some ?data\<rparr>)))
             = Inr ?data"
    by (simp add: fst_get_answers handle_response_def)
  have "exchange_info_of ?data ''btcusdt'' = Inl (symbol_not_found ''btcusdt'')"
    by (simp add: exchange_info_of_def py_get_def py_iter_def upper_examples)
  with fst_get_exchange_info [OF got] show ?thesis
    by (simp add: matches_ignoring_case_def symbol_of_def)
qed

text \<open>
  C8, amended. When the GET of the exchange information succeeds with a body whose
  \<open>symbols\<close> is a list of objects, \<open>get_exchange_info\<close> returns the first entry whose
  symbol equals the upper-cased query, and fails with the not-found \<open>ValueError\<close>
  (the spec's SymbolNotFoundError) exactly when no entry's symbol equals the upper-cased
  query. Where every listed symbol is in upper case, that is the first entry matching
  the query whatever the case.
\<close>

theorem get_exchange_info_lookup:
  assumes "fst (get c ''/fapi/v1/exchangeInfo'' None False w) = Inr data"
    and "py_get data ''symbols'' (PList []) = Inr (PList syms)"
    and "list_all is_dict syms"
  shows "fst (get_exchange_info c symbol w)
           = (case find (\<lambda>e. symbol_of e = PStr (upper symbol)) syms of
                Some e \<Rightarrow> Inr e
              | None \<Rightarrow> Inl (symbol_not_found symbol))
       \<and> ((fst (get_exchange_info c symbol w) = Inl (symbol_not_found symbol))
            = (\<not> list_ex (\<lambda>e. symbol_of e = PStr (upper symbol)) syms))
       \<and> (list_all upper_case_symbol syms \<longrightarrow>
            fst (get_exchange_info c symbol w)
              = (case find (\<lambda>e. matches_ignoring_case e symbol) syms of
                   Some e \<Rightarrow> Inr e
                 | None \<Rightarrow> Inl (symbol_not_found symbol)))"
proof -
  have eq: "fst (get_exchange_info c symbol w) = find_symbol syms symbol"
    using assms(1,2) by (simp add: fst_get_exchange_info exchange_info_of_def py_iter_def)
  have look: "fst (get_exchange_info c symbol w)
           = (case find (\<lambda>e. symbol_of e = PStr (upper symbol)) syms of
                Some e \<Rightarrow> Inr e
              | None \<Rightarrow> Inl (symbol_not_found symbol))"
    using eq find_symbol_find [OF assms(3)] by simp
  have fails: "(fst (get_exchange_info c symbol w) = Inl (symbol_not_found symbol))
            = (\<not> list_ex (\<lambda>e. symbol_of e = PStr (upper symbol)) syms)"
    unfolding look by (auto simp: list_ex_iff find_None_iff split: option.splits dest: find_Some_holds)
  have ci: "list_all upper_case_symbol syms \<longrightarrow>
            fst (get_exchange_info c symbol w)
              = (case find (\<lambda>e. matches_ignoring_case e symbol) syms of
                   Some e \<Rightarrow> Inr e
                 | None \<Rightarrow> Inl (symbol_not_found symbol))"
    unfolding look by (simp add: find_upper_case)
  from look fails ci show ?thesis by blast
qed

theorem get_exchange_info_lookup_witness:
  "fst (get_exchange_info example_client ''btcusdt''
          (example_world (answers \<lparr>status_code = 200, resp_text = [],
             resp_json = Some (PDict [(''symbols'', PList
               [PDict [(''symbol'', PStr ''ETHUSDT'')],
                PDict [(''symbol'', PStr ''BTCUSDT''), (''status'', PStr ''TRADING'')]])])\<rparr>)))
     = Inr (PDict [(''symbol'', PStr ''BTCUSDT''), (''status'', PStr ''TRADING'')])"
proof -
  let ?syms = "[PDict [(''symbol'', PStr ''ETHUSDT'')],
                PDict [(''symbol'', PStr ''BTCUSDT''), (''status'', PStr ''TRADING'')]]"
  let ?data = "PDict [(''symbols'', PList ?syms)]"
  let ?w = "example_world (answers \<lparr>status_code = 200, resp_text = [], resp_json = Some ?data\<rparr>)"
  have got: "fst (get example_client ''/fapi/v1/exchangeInfo'' None False ?w) = Inr ?data"
    by (simp add: fst_get_answers handle_response_def)
  have syms: "py_get ?data ''symbols'' (PList []) = Inr (PList ?syms)"
    by (simp add: py_get_def)
  have dicts: "list_all is_dict ?syms"
    by (simp add: is_dict_def)
  have found: "find (\<lambda>e. symbol_of e = PStr (upper ''btcusdt'')) ?syms
                 = Some (PDict [(''symbol'', PStr ''BTCUSDT''), (''status'', PStr ''TRADING'')])"
    by (simp add: symbol_of_def upper_examples)
  have "fst (get_exchange_info example_client ''btcusdt'' ?w)
          = (case find (\<lambda>e. symbol_of e = PStr (upper ''btcusdt'')) ?syms of
                Some e \<Rightarrow> Inr e
              | None \<Rightarrow> Inl (symbol_not_found ''btcusdt''))"
    using get_exchange_info_lookup [OF got syms dicts, of "''btcusdt''"] by (rule conjunct1)
  then show ?thesis unfolding found by simp
qed

section \<open>Properties of the readable update time\<close>

lemma time_str_of_number:
  assumes "\<And>t e. utc_string t = Inl e \<Longrightarrow> is_os_error e \<or> e = OverflowError \<or> is_value_error e"
    and "v = PInt n \<or> v = PBool b \<or> v = PFloat x"
  shows "\<exists>s. time_str_of utc_string v = Inr s"
proof -
  have "div_1000 v = Inl OverflowError \<or> (\<exists>t. div_1000 v = Inr t)"
    using assms(2)
    by (auto simp: div_1000_def int_div_1000_def split: pyfloat.splits option.splits if_splits)
  then show ?thesis
  proof
    assume "div_1000 v = Inl OverflowError"
    then show ?thesis by (simp add: time_str_of_def)
  next
    assume "\<exists>t. div_1000 v = Inr t"
    then obtain t where t: "div_1000 v = Inr t" by blast
    show ?thesis
    proof (cases "utc_string t")
      case (Inl e)
      with assms(1) t show ?thesis by (auto simp: time_str_of_def)
    next
      case (Inr s)
      with t show ?thesis by (simp add: time_str_of_def)
    qed
  qed
qed

lemma add_update_time_human_fallback:
  "div_1000 (case map_of result ''updateTime'' of None \<Rightarrow> PInt 0 | Some v \<Rightarrow> v) = Inl e \<Longrightarrow>
     map_of (add_update_time_human utc_string result) ''updateTimeHuman''
       = Some (PStr (py_str (case map_of result ''updateTime'' of None \<Rightarrow> PInt 0 | Some v \<Rightarrow> v)))"
  by (simp add: add_update_time_human_def AList.update_conv')

text \<open>
  C9. The claim: for every value of the update-time field, making the readable time
  never fails the surrounding operation; when the conversion fails the raw value is used.
  The web handlers catch every exception of the conversion. \<open>format_order_result\<close>
  catches \<open>OSError\<close>, \<open>OverflowError\<close> and \<open>ValueError\<close> only: an update time that is
  not a number (JSON \<open>null\<close>, a string) makes the division \<open>update_time_ms / 1000\<close> raise
  \<open>TypeError\<close>, which escapes and fails the call.
\<close>

theorem format_order_result_type_error:
  "format_order_result utc_string [(''orderId'', PInt 1), (''updateTime'', PNone)] = Inl TypeError
   \<and> format_order_result utc_string [(''orderId'', PInt 1), (''updateTime'', PStr ''1700000000000'')]
       = Inl TypeError"
  by (simp add: format_order_result_def time_str_of_def div_1000_def is_os_error_def is_value_error_def)

section \<open>Properties of signing\<close>

text \<open>The digest of the text \<open>abc\<close> is the one the standard gives for it.\<close>

lemma sha256_abc:
  "hexdigest (sha256 (encode ''abc''))
     = ''ba7816bf8f01cfea414140de5dae2223b00361a396177a9cb410ff61f20015ad''"
  by code_simp

lemma update_append_new:
  "k \<notin> fst ` set al \<Longrightarrow> AList.update k v al = al @ [(k, v)]"
  by (induction al) auto

lemma filter_no_signature:
  "''signature'' \<notin> fst ` set al \<Longrightarrow> filter (\<lambda>kv. fst kv \<noteq> ''signature'') al = al"
  by (induction al) auto

lemma signed_dict_spec:
  assumes "''signature'' \<notin> fst ` set params"
  shows "signed_dict c now params = spec_signed c now params"
proof -
  have "''signature'' \<notin> fst ` set (AList.update ''timestamp'' (PInt now) params)"
    using assms by (simp add: AList.dom_update)
  then show ?thesis
    using assms
    by (simp add: signed_dict_def spec_signed_def Let_def update_append_new filter_no_signature)
qed

lemma spec_signed_fresh:
  assumes "''signature'' \<notin> fst ` set params" and "''timestamp'' \<notin> fst ` set params"
  shows "spec_signed c now params
           = params @ [(''timestamp'', PInt now),
                       (''signature'', PStr (hmac_sha256_hex (api_secret c)
                                              (urlencode (params @ [(''timestamp'', PInt now)]))))]"
  using assms by (simp add: spec_signed_def Let_def update_append_new filter_no_signature)

lemma prepare_signed:
  "prepare c (Some a) True w
     = (a, w\<lparr>heap := (heap w)(a := signed_dict c (now_ms w) (heap w a))\<rparr>)"
  by (simp add: prepare_def sign_def)

lemma prepare_signed_none:
  "prepare c None True w
     = (fresh w, w\<lparr>heap := (heap w)(fresh w := signed_dict c (now_ms w) []), fresh := Suc (fresh w)\<rparr>)"
  by (simp add: prepare_def sign_def alloc_def)

lemma prepare_unsigned:
  "prepare c (Some a) False w = (a, w)"
  by (simp add: prepare_def)

lemma sent_send: "sent (snd (send req w)) = sent w @ [req]"
  by (simp add: send_def Let_def split: sum.splits)

lemma heap_send: "heap (snd (send req w)) = heap w"
  by (simp add: send_def Let_def split: sum.splits)

lemma urlencode_stale_signature:
  "urlencode [(''signature'', PStr ''abc''), (''timestamp'', PInt 1700000000000)]
     = ''signature=abc&timestamp=1700000000000''"
  by code_simp

text \<open>
  C1, as stated, fails. The claim: for every parameter map the transmitted map is the
  original extended with \<open>timestamp\<close>, followed by \<open>signature\<close>, the digest of the
  URL-encoded parameters without \<open>signature\<close>. When the map already holds a
  \<open>signature\<close> (a dict signed before and used again), \<open>_sign\<close> encodes that old entry
  into the signed text and then overwrites it where it stands: the signature is computed
  over \<open>signature=abc&timestamp=...\<close> and is transmitted before \<open>timestamp\<close>.
\<close>

theorem signed_request_counterexample:
  "req_params (last (sent (snd (get example_client ''/fapi/v1/order'' (Some 0) True
       ((example_world (answers \<lparr>status_code = 200, resp_text = ''{}'', resp_json = Some (PDict [])\<rparr>))
          \<lparr>heap := (\<lambda>a. [(''signature'', PStr ''abc'')])\<rparr>)))))
     = [(''signature'', PStr (hmac_sha256_hex ''secret'' ''signature=abc&timestamp=1700000000000'')),
        (''timestamp'', PInt 1700000000000)]
   \<and> req_params (last (sent (snd (get example_client ''/fapi/v1/order'' (Some 0) True
       ((example_world (answers \<lparr>status_code = 200, resp_text = ''{}'', resp_json = Some (PDict [])\<rparr>))
          \<lparr>heap := (\<lambda>a. [(''signature'', PStr ''abc'')])\<rparr>)))))
     \<noteq> spec_signed example_client 1700000000000 [(''signature'', PStr ''abc'')]"
proof -
  let ?w = "(example_world (answers \<lparr>status_code = 200, resp_text = ''{}'', resp_json = Some (PDict [])\<rparr>))
          \<lparr>heap := (\<lambda>a. [(''signature'', PStr ''abc'')])\<rparr>"
  have sd: "signed_dict example_client 1700000000000 [(''signature'', PStr ''abc'')]
          = [(''signature'', PStr (hmac_sha256_hex ''secret'' ''signature=abc&timestamp=1700000000000'')),
             (''timestamp'', PInt 1700000000000)]"
    by (simp add: signed_dict_def Let_def urlencode_stale_signature example_client_def)
  have req: "req_params (last (sent (snd (get example_client ''/fapi/v1/order'' (Some 0) True ?w))))
          = signed_dict example_client 1700000000000 [(''signature'', PStr ''abc'')]"
    by (simp add: get_def prepare_signed sent_send example_world_def)
  have spec: "map fst (spec_signed example_client 1700000000000 [(''signature'', PStr ''abc'')])
          = [''timestamp'', ''signature'']"
    by (simp add: spec_signed_def Let_def)
  have "signed_dict example_client 1700000000000 [(''signature'', PStr ''abc'')]
          \<noteq> spec_signed example_client 1700000000000 [(''signature'', PStr ''abc'')]"
  proof
    assume "signed_dict example_client 1700000000000 [(''signature'', PStr ''abc'')]
          = spec_signed example_client 1700000000000 [(''signature'', PStr ''abc'')]"
    then have "map fst (signed_dict example_client 1700000000000 [(''signature'', PStr ''abc'')])
          = [''timestamp'', ''signature'']"
      using spec by simp
    then show False unfolding sd by simp
  qed
  with req sd show ?thesis by simp
qed

text \<open>
  C1, amended. For every call of \<open>get\<close>, \<open>post\<close> or \<open>delete\<close> with \<open>signed=true\<close> whose
  parameter map holds no \<open>signature\<close> key yet (an omitted map counts as empty), the
  transmitted map is the original with \<open>timestamp\<close> set to the clock's milliseconds,
  followed by \<open>signature\<close>, the HMAC-SHA256 hex digest under the API secret of the
  URL-encoded parameters, \<open>timestamp\<close> among them and \<open>signature\<close> not, in the order
  transmitted; where the original holds no \<open>timestamp\<close> either, both keys are appended
  in that order. An unsigned call transmits the parameters unchanged.
\<close>

theorem signed_request_params:
  fixes c :: client and w :: world and endpoint :: string and params :: "nat option"
  defines "original \<equiv> (case params of None \<Rightarrow> [] | Some a \<Rightarrow> heap w a)"
  defines "request \<equiv> (\<lambda>m q d. \<lparr>req_method = m, req_url = base_url c @ endpoint,
                           req_headers = session_headers c, req_params = q, req_data = d,
                           req_timeout = 10\<rparr>)"
  shows "(''signature'' \<notin> fst ` set original \<longrightarrow>
            sent (snd (get c endpoint params True w))
              = sent w @ [request GET (spec_signed c (now_ms w) original) []]
          \<and> sent (snd (post c endpoint params True w))
              = sent w @ [request POST [] (spec_signed c (now_ms w) original)]
          \<and> sent (snd (delete c endpoint params True w))
              = sent w @ [request DELETE (spec_signed c (now_ms w) original) []])
       \<and> (''signature'' \<notin> fst ` set original \<and> ''timestamp'' \<notin> fst ` set original \<longrightarrow>
            spec_signed c (now_ms w) original
              = original @ [(''timestamp'', PInt (now_ms w)),
                            (''signature'', PStr (hmac_sha256_hex (api_secret c)
                               (urlencode (original @ [(''timestamp'', PInt (now_ms w))]))))])
       \<and> sent (snd (get c endpoint params False w)) = sent w @ [request GET original []]
       \<and> sent (snd (post c endpoint params False w)) = sent w @ [request POST [] original]
       \<and> sent (snd (delete c endpoint params False w)) = sent w @ [request DELETE original []]"
proof -
  have signed: "''signature'' \<notin> fst ` set original \<longrightarrow>
            sent (snd (get c endpoint params True w))
              = sent w @ [request GET (spec_signed c (now_ms w) original) []]
          \<and> sent (snd (post c endpoint params True w))
              = sent w @ [request POST [] (spec_signed c (now_ms w) original)]
          \<and> sent (snd (delete c endpoint params True w))
              = sent w @ [request DELETE (spec_signed c (now_ms w) original) []]"
  proof (cases params)
    case None
    then show ?thesis
      unfolding original_def request_def
      by (simp add: get_def post_def delete_def prepare_signed_none sent_send signed_dict_spec)
  next
    case (Some a)
    then show ?thesis
      unfolding original_def request_def
      by (simp add: get_def post_def delete_def prepare_signed sent_send signed_dict_spec)
  qed
  have fresh: "''signature'' \<notin> fst ` set original \<and> ''timestamp'' \<notin> fst ` set original \<longrightarrow>
            spec_signed c (now_ms w) original
              = original @ [(''timestamp'', PInt (now_ms w)),
                            (''signature'', PStr (hmac_sha256_hex (api_secret c)
                               (urlencode (original @ [(''timestamp'', PInt (now_ms w))]))))]"
    by (simp add: spec_signed_fresh)
  have unsigned: "sent (snd (get c endpoint params False w)) = sent w @ [request GET original []]"
    "sent (snd (post c endpoint params False w)) = sent w @ [request POST [] original]"
    "sent (snd (delete c endpoint params False w)) = sent w @ [request DELETE original []]"
    unfolding original_def request_def
    by (cases params; simp add: get_def post_def delete_def prepare_def alloc_def sent_send)+
  from signed fresh unsigned show ?thesis by blast
qed

lemma urlencode_order_query:
  "urlencode [(''symbol'', PStr ''BTCUSDT''), (''orderId'', PInt 42), (''timestamp'', PInt 1700000000000)]
     = ''symbol=BTCUSDT&orderId=42&timestamp=1700000000000''"
  by code_simp

theorem signed_request_params_witness:
  "sent (snd (get example_client ''/fapi/v1/order'' (Some 0) True
       ((example_world (answers \<lparr>status_code = 200, resp_text = ''{}'', resp_json = Some (PDict [])\<rparr>))
          \<lparr>heap := (\<lambda>a. [(''symbol'', PStr ''BTCUSDT''), (''orderId'', PInt 42)])\<rparr>)))
     = [\<lparr>req_method = GET, req_url = ''https://testnet.binancefuture.com/fapi/v1/order'',
         req_headers = [(''X-MBX-APIKEY'', ''key''),
                        (''Content-Type'', ''application/x-www-form-urlencoded'')],
         req_params = [(''symbol'', PStr ''BTCUSDT''), (''orderId'', PInt 42),
                       (''timestamp'', PInt 1700000000000),
                       (''signature'', PStr (hmac_sha256_hex ''secret''
                          ''symbol=BTCUSDT&orderId=42&timestamp=1700000000000''))],
         req_data = [], req_timeout = 10\<rparr>]"
proof -
  let ?w = "(example_world (answers \<lparr>status_code = 200, resp_text = ''{}'', resp_json = Some (PDict [])\<rparr>))
          \<lparr>heap := (\<lambda>a. [(''symbol'', PStr ''BTCUSDT''), (''orderId'', PInt 42)])\<rparr>"
  note t = signed_request_params [where params = "Some 0" and w = ?w and c = example_client
      and endpoint = "''/fapi/v1/order''"]
  have keys: "''signature'' \<notin> fst ` set (heap ?w 0)" "''timestamp'' \<notin> fst ` set (heap ?w 0)"
    by (simp_all add: example_world_def)
  have 1: "sent (snd (get example_client ''/fapi/v1/order'' (Some 0) True ?w))
     = sent ?w @ [\<lparr>req_method = GET, req_url = base_url example_client @ ''/fapi/v1/order'',
         req_headers = session_headers example_client,
         req_params = spec_signed example_client (now_ms ?w) (heap ?w 0),
         req_data = [], req_timeout = 10\<rparr>]"
    using t keys by simp
  have 2: "spec_signed example_client (now_ms ?w) (heap ?w 0)
     = heap ?w 0 @ [(''timestamp'', PInt (now_ms ?w)),
                    (''signature'', PStr (hmac_sha256_hex (api_secret example_client)
                       (urlencode (heap ?w 0 @ [(''timestamp'', PInt (now_ms ?w))]))))]"
    using t keys by simp
  show ?thesis
    unfolding 1 2
    by (simp add: example_world_def example_client_def session_headers_def urlencode_order_query)
qed

section \<open>The caller's dict after a signed call\<close>

lemma filter_update_other:
  "k = a \<or> k = b \<Longrightarrow>
     filter (\<lambda>kv. fst kv \<noteq> a \<and> fst kv \<noteq> b) (AList.update k v al)
       = filter (\<lambda>kv. fst kv \<noteq> a \<and> fst kv \<noteq> b) al"
  by (induction al) auto

lemma map_of_signed_dict_other:
  "k \<noteq> ''timestamp'' \<Longrightarrow> k \<noteq> ''signature'' \<Longrightarrow> map_of (signed_dict c now d) k = map_of d k"
  by (simp add: signed_dict_def Let_def AList.update_conv')

lemma map_of_signed_dict_timestamp:
  "map_of (signed_dict c now d) ''timestamp'' = Some (PInt now)"
  by (simp add: signed_dict_def Let_def AList.update_conv')

lemma map_of_signed_dict_signature:
  "map_of (signed_dict c now d) ''signature''
     = Some (PStr (hmac_sha256_hex (api_secret c) (urlencode (AList.update ''timestamp'' (PInt now) d))))"
  by (simp add: signed_dict_def Let_def AList.update_conv')

lemma filter_signed_dict:
  "filter (\<lambda>kv. fst kv \<noteq> ''timestamp'' \<and> fst kv \<noteq> ''signature'') (signed_dict c now d)
     = filter (\<lambda>kv. fst kv \<noteq> ''timestamp'' \<and> fst kv \<noteq> ''signature'') d"
  by (simp add: signed_dict_def Let_def filter_update_other)

lemma heap_after_signed_call:
  "heap (snd (get c endpoint (Some a) True w)) = (heap w)(a := signed_dict c (now_ms w) (heap w a))"
  "heap (snd (post c endpoint (Some a) True w)) = (heap w)(a := signed_dict c (now_ms w) (heap w a))"
  "heap (snd (delete c endpoint (Some a) True w)) = (heap w)(a := signed_dict c (now_ms w) (heap w a))"
  by (simp_all add: get_def post_def delete_def prepare_signed heap_send)

text \<open>
  C10. A signed \<open>get\<close>, \<open>post\<close> or \<open>delete\<close> writes into the caller's own dict: after
  the call, whatever its outcome, the dict at the caller's address holds \<open>timestamp\<close>,
  set to the clock's value whatever it held before, and \<open>signature\<close>; every other key
  has the value it had, the other entries stand in the order they stood, and no other
  dict on the heap has changed.
\<close>

theorem signed_call_writes_caller_dict:
  fixes c :: client and w :: world and endpoint :: string and a :: nat
  defines "after \<equiv> signed_dict c (now_ms w) (heap w a)"
  shows "heap (snd (get c endpoint (Some a) True w)) a = after
       \<and> heap (snd (post c endpoint (Some a) True w)) a = after
       \<and> heap (snd (delete c endpoint (Some a) True w)) a = after
       \<and> map_of after ''timestamp'' = Some (PInt (now_ms w))
       \<and> (\<exists>s. map_of after ''signature'' = Some (PStr s))
       \<and> fst ` set after = {''timestamp'', ''signature''} \<union> fst ` set (heap w a)
       \<and> (\<forall>k. k \<noteq> ''timestamp'' \<and> k \<noteq> ''signature'' \<longrightarrow> map_of after k = map_of (heap w a) k)
       \<and> filter (\<lambda>kv. fst kv \<noteq> ''timestamp'' \<and> fst kv \<noteq> ''signature'') after
           = filter (\<lambda>kv. fst kv \<noteq> ''timestamp'' \<and> fst kv \<noteq> ''signature'') (heap w a)
       \<and> (\<forall>b. b \<noteq> a \<longrightarrow>
             heap (snd (get c endpoint (Some a) True w)) b = heap w b
           \<and> heap (snd (post c endpoint (Some a) True w)) b = heap w b
           \<and> heap (snd (delete c endpoint (Some a) True w)) b = heap w b)"
proof -
  have keys: "fst ` set after = {''timestamp'', ''signature''} \<union> fst ` set (heap w a)"
    unfolding after_def by (auto simp: signed_dict_def Let_def AList.dom_update)
  show ?thesis
    unfolding after_def [symmetric]
    using keys
    by (simp add: heap_after_signed_call after_def map_of_signed_dict_other
        map_of_signed_dict_timestamp map_of_signed_dict_signature filter_signed_dict)
qed

lemma urlencode_reused_query:
  "urlencode [(''timestamp'', PInt 1700000000000), (''symbol'', PStr ''BTCUSDT'')]
     = ''timestamp=1700000000000&symbol=BTCUSDT''"
  by code_simp

theorem signed_call_writes_caller_dict_witness:
  "heap (snd (post example_client ''/fapi/v1/order'' (Some 0) True
       ((example_world (answers \<lparr>status_code = 200, resp_text = ''{}'', resp_json = Some (PDict [])\<rparr>))
          \<lparr>heap := (\<lambda>a. if a = 0 then [(''timestamp'', PInt 1), (''symbol'', PStr ''BTCUSDT'')]
                          else [(''symbol'', PStr ''ETHUSDT'')])\<rparr>))) 0
     = [(''timestamp'', PInt 1700000000000), (''symbol'', PStr ''BTCUSDT''),
        (''signature'', PStr (hmac_sha256_hex ''secret'' ''timestamp=1700000000000&symbol=BTCUSDT''))]
   \<and> heap (snd (post example_client ''/fapi/v1/order'' (Some 0) True
       ((example_world (answers \<lparr>status_code = 200, resp_text = ''{}'', resp_json = Some (PDict [])\<rparr>))
          \<lparr>heap := (\<lambda>a. if a = 0 then [(''timestamp'', PInt 1), (''symbol'', PStr ''BTCUSDT'')]
                          else [(''symbol'', PStr ''ETHUSDT'')])\<rparr>))) 1
     = [(''symbol'', PStr ''ETHUSDT'')]"
proof -
  let ?w = "(example_world (answers \<lparr>status_code = 200, resp_text = ''{}'', resp_json = Some (PDict [])\<rparr>))
          \<lparr>heap := (\<lambda>a. if a = 0 then [(''timestamp'', PInt 1), (''symbol'', PStr ''BTCUSDT'')]
                          else [(''symbol'', PStr ''ETHUSDT'')])\<rparr>"
  note t = signed_call_writes_caller_dict [where c = example_client and endpoint = "''/fapi/v1/order''"
      and a = 0 and w = ?w]
  have 1: "heap (snd (post example_client ''/fapi/v1/order'' (Some 0) True ?w)) 0
             = signed_dict example_client (now_ms ?w) (heap ?w 0)"
    using t by blast
  have 2: "heap (snd (post example_client ''/fapi/v1/order'' (Some 0) True ?w)) 1 = heap ?w 1"
    using t by simp
  have 3: "signed_dict example_client (now_ms ?w) (heap ?w 0)
             = [(''timestamp'', PInt 1700000000000), (''symbol'', PStr ''BTCUSDT''),
                (''signature'', PStr (hmac_sha256_hex ''secret'' ''timestamp=1700000000000&symbol=BTCUSDT''))]"
    by (simp add: signed_dict_def Let_def example_world_def example_client_def urlencode_reused_query)
  show ?thesis
    unfolding 1 2 3 by (simp add: example_world_def)
qed

end
